theory Spec2Isabelle
  imports Complex_Main
begin

section \<open>Python strings\<close>

text \<open>
  A Python \<^verbatim>\<open>str\<close> is modelled as a \<^typ>\<open>string\<close> whose characters are the code
  points 0 to 255. On that range \<^verbatim>\<open>str.lower\<close> maps A..Z and the capital
  letters 192..222 (except the multiplication sign 215) to the code point 32 above, and
  \<^verbatim>\<open>str.strip\<close> removes the code points 9..13, 28..32, 133 and 160 at both ends.
\<close>

definition lower_char :: "char \<Rightarrow> char" where
  "lower_char c =
     (let n = (of_char c :: nat)
      in if (65 \<le> n \<and> n \<le> 90) \<or> (192 \<le> n \<and> n \<le> 222 \<and> n \<noteq> 215)
         then char_of (n + 32) else c)"

definition py_lower :: "string \<Rightarrow> string" where
  "py_lower s = map lower_char s"

definition isspace :: "char \<Rightarrow> bool" where
  "isspace c =
     (let n = (of_char c :: nat)
      in (9 \<le> n \<and> n \<le> 13) \<or> (28 \<le> n \<and> n \<le> 32) \<or> n = 133 \<or> n = 160)"

definition py_strip :: "string \<Rightarrow> string" where
  "py_strip s = rev (dropWhile isspace (rev (dropWhile isspace s)))"

text \<open>\<^verbatim>\<open>str.replace(old, new)\<close> for one-character \<^verbatim>\<open>old\<close> and \<^verbatim>\<open>new\<close>.\<close>

definition replace_char :: "char \<Rightarrow> char \<Rightarrow> string \<Rightarrow> string" where
  "replace_char old new s = map (\<lambda>c. if c = old then new else c) s"

text \<open>\<^verbatim>\<open>s.startswith(p)\<close> and the substring test \<^verbatim>\<open>sub in s\<close>.\<close>

fun startswith :: "string \<Rightarrow> string \<Rightarrow> bool" where
  "startswith s [] = True"
| "startswith [] (p # ps) = False"
| "startswith (c # s) (p # ps) = (c = p \<and> startswith s ps)"

fun py_in :: "string \<Rightarrow> string \<Rightarrow> bool" where
  "py_in sub [] = (sub = [])"
| "py_in sub (c # s) = (startswith (c # s) sub \<or> py_in sub s)"

section \<open>Configuration\<close>

definition VERSION :: int where
  "VERSION = 3"

definition DEFAULT_AFFILIATE_TAG_AMAZON :: string where
  "DEFAULT_AFFILIATE_TAG_AMAZON = ''dormready-20''"

definition DEFAULT_AFFILIATE_TAG_WALMART :: string where
  "DEFAULT_AFFILIATE_TAG_WALMART = ''dormready''"

definition DEFAULT_AFFILIATE_TAG_TARGET :: string where
  "DEFAULT_AFFILIATE_TAG_TARGET = ''dormready''"

definition DEFAULT_AFFILIATE_TAG_OTHER :: string where
  "DEFAULT_AFFILIATE_TAG_OTHER = ''dormready''"

text \<open>The badge table, in the order of the source's dictionary literal.\<close>

definition BADGE_MAPPING :: "(string \<times> string) list" where
  "BADGE_MAPPING =
    [(''budget best-seller'', ''best_seller''),
     (''best-seller'', ''best_seller''),
     (''Amazon no.1 best-seller'', ''best_seller''),
     (''amazons choice'', ''amazons_choice''),
     (''amazon choice-style'', ''amazons_choice''),
     (''budget pick'', ''budget_pick''),
     (''dorm bundle'', ''dorm_bundle''),
     (''adjustable luxury'', ''premium''),
     (''premium adjustable'', ''premium''),
     (''multiple options'', ''multiple_options''),
     (''multiple styles'', ''multiple_options''),
     (''heavy-duty'', ''heavy_duty''),
     (''adjustable height'', ''adjustable''),
     (''popular dorm upgrade'', ''popular''),
     (''popular dorm lamp'', ''popular''),
     (''plush comfort'', ''comfort''),
     (''decor + luxe feel'', ''premium''),
     (''top-rated'', ''top_rated''),
     (''budget encasement'', ''budget_pick''),
     (''soft & quiet'', ''comfort''),
     (''allergy-friendly'', ''allergy_friendly''),
     (''value pack'', ''value_pack''),
     (''big-box option'', ''in_store''),
     (''budget full-body'', ''budget_pick''),
     (''budget set'', ''budget_pick''),
     (''budget cozy'', ''budget_pick''),
     (''large capacity'', ''large_capacity''),
     (''many options'', ''multiple_options'')]"

section \<open>Python values and exceptions\<close>

text \<open>
  The values \<^verbatim>\<open>json.loads\<close> returns and the converter builds: \<^verbatim>\<open>None\<close>, booleans,
  integers, floats (finite ones, as rationals; the converter never computes with them),
  strings, lists, and dictionaries as association lists in insertion order.
\<close>

datatype py =
    PNone
  | PBool bool
  | PInt int
  | PFloat rat
  | PStr string
  | PList "py list"
  | PDict "(py \<times> py) list"

datatype error =
    JSONDecodeError
  | KeyError string
  | TypeError
  | AttributeError
  | IndexError
  | OSError

text \<open>Sequencing of steps that may raise: the first exception ends the computation.\<close>

definition ebind :: "error + 'a \<Rightarrow> ('a \<Rightarrow> error + 'b) \<Rightarrow> error + 'b" where
  "ebind m f = (case m of Inl e \<Rightarrow> Inl e | Inr x \<Rightarrow> f x)"

text \<open>Truth value of an object (\<^verbatim>\<open>not badge\<close> is its negation).\<close>

fun truthy :: "py \<Rightarrow> bool" where
  "truthy PNone = False"
| "truthy (PBool b) = b"
| "truthy (PInt i) = (i \<noteq> 0)"
| "truthy (PFloat r) = (r \<noteq> 0)"
| "truthy (PStr s) = (s \<noteq> [])"
| "truthy (PList xs) = (xs \<noteq> [])"
| "truthy (PDict d) = (d \<noteq> [])"

text \<open>
  Dictionary keys: lists and dictionaries are unhashable; booleans, integers and floats
  are equal as keys when they are equal as numbers (\<^verbatim>\<open>True == 1 == 1.0\<close>).
\<close>

fun hashable :: "py \<Rightarrow> bool" where
  "hashable (PList xs) = False"
| "hashable (PDict d) = False"
| "hashable v = True"

fun num_val :: "py \<Rightarrow> rat option" where
  "num_val (PBool b) = Some (if b then 1 else 0)"
| "num_val (PInt i) = Some (of_int i)"
| "num_val (PFloat r) = Some r"
| "num_val v = None"

definition key_eq :: "py \<Rightarrow> py \<Rightarrow> bool" where
  "key_eq a b =
     (case (num_val a, num_val b) of
        (Some x, Some y) \<Rightarrow> x = y
      | (None, None) \<Rightarrow> a = b
      | _ \<Rightarrow> False)"

fun dict_get :: "(py \<times> py) list \<Rightarrow> py \<Rightarrow> py option" where
  "dict_get [] k = None"
| "dict_get ((k', v) # d) k = (if key_eq k' k then Some v else dict_get d k)"

text \<open>
  \<^verbatim>\<open>d[k] = v\<close>: an existing key keeps its place (and its key object) and gets the new
  value; a new key goes to the end.
\<close>

fun dict_set :: "(py \<times> py) list \<Rightarrow> py \<Rightarrow> py \<Rightarrow> (py \<times> py) list" where
  "dict_set [] k v = [(k, v)]"
| "dict_set ((k', v') # d) k v =
     (if key_eq k' k then (k', v) # d else (k', v') # dict_set d k v)"

text \<open>\<^verbatim>\<open>obj.get(key, default)\<close>: only a dictionary has the method.\<close>

definition py_get :: "py \<Rightarrow> string \<Rightarrow> py \<Rightarrow> error + py" where
  "py_get obj k dflt =
     (case obj of
        PDict d \<Rightarrow> Inr (case dict_get d (PStr k) of Some v \<Rightarrow> v | None \<Rightarrow> dflt)
      | _ \<Rightarrow> Inl AttributeError)"

text \<open>
  \<^verbatim>\<open>obj[key]\<close> for a string key: a missing key of a dictionary is a KeyError,
  subscripting any other value with a string is a TypeError.
\<close>

definition py_getitem :: "py \<Rightarrow> string \<Rightarrow> error + py" where
  "py_getitem obj k =
     (case obj of
        PDict d \<Rightarrow> (case dict_get d (PStr k) of Some v \<Rightarrow> Inr v | None \<Rightarrow> Inl (KeyError k))
      | _ \<Rightarrow> Inl TypeError)"

text \<open>
  \<^verbatim>\<open>key in obj\<close> for a string key: a key of a dictionary, a substring of a string, an
  element of a list; the other values are not iterable.
\<close>

definition py_contains :: "py \<Rightarrow> string \<Rightarrow> error + bool" where
  "py_contains obj k =
     (case obj of
        PDict d \<Rightarrow> Inr (dict_get d (PStr k) \<noteq> None)
      | PStr s \<Rightarrow> Inr (py_in k s)
      | PList xs \<Rightarrow> Inr (PStr k \<in> set xs)
      | _ \<Rightarrow> Inl TypeError)"

text \<open>\<^verbatim>\<open>obj[key] = value\<close> for a string key: only a dictionary accepts it.\<close>

definition py_setitem :: "py \<Rightarrow> string \<Rightarrow> py \<Rightarrow> error + py" where
  "py_setitem obj k v =
     (case obj of
        PDict d \<Rightarrow> Inr (PDict (dict_set d (PStr k) v))
      | _ \<Rightarrow> Inl TypeError)"

text \<open>
  Iteration (\<^verbatim>\<open>for x in obj\<close>, \<^verbatim>\<open>enumerate(obj)\<close>): the elements of a list, the
  one-character strings of a string, the keys of a dictionary.
\<close>

definition py_iter :: "py \<Rightarrow> error + py list" where
  "py_iter obj =
     (case obj of
        PList xs \<Rightarrow> Inr xs
      | PStr s \<Rightarrow> Inr (map (\<lambda>c. PStr [c]) s)
      | PDict d \<Rightarrow> Inr (map fst d)
      | _ \<Rightarrow> Inl TypeError)"

definition py_len :: "py \<Rightarrow> error + nat" where
  "py_len obj =
     (case obj of
        PList xs \<Rightarrow> Inr (length xs)
      | PStr s \<Rightarrow> Inr (length s)
      | PDict d \<Rightarrow> Inr (length d)
      | _ \<Rightarrow> Inl TypeError)"

text \<open>\<^verbatim>\<open>obj.keys()\<close> and \<^verbatim>\<open>obj.values()\<close>: methods of a dictionary only.\<close>

definition py_keys :: "py \<Rightarrow> error + py list" where
  "py_keys obj = (case obj of PDict d \<Rightarrow> Inr (map fst d) | _ \<Rightarrow> Inl AttributeError)"

definition py_values :: "py \<Rightarrow> error + py list" where
  "py_values obj = (case obj of PDict d \<Rightarrow> Inr (map snd d) | _ \<Rightarrow> Inl AttributeError)"

text \<open>The receiver of a string method such as \<^verbatim>\<open>lower\<close>: any other value has none.\<close>

definition as_str :: "py \<Rightarrow> error + string" where
  "as_str obj = (case obj of PStr s \<Rightarrow> Inr s | _ \<Rightarrow> Inl AttributeError)"

section \<open>Normalizers\<close>

definition normalize_retailer :: "string \<Rightarrow> string" where
  "normalize_retailer retailer = py_strip (py_lower retailer)"

text \<open>
  \<^verbatim>\<open>normalize_badge\<close> takes a string or \<^verbatim>\<open>None\<close>; \<^verbatim>\<open>not badge\<close> holds for
  \<^verbatim>\<open>None\<close>, the empty string and every other false value, and a true value that is
  not a string has no \<^verbatim>\<open>lower\<close>.
\<close>

definition normalize_badge :: "py \<Rightarrow> error + py" where
  "normalize_badge badge =
     (if \<not> truthy badge then Inr PNone
      else ebind (as_str badge) (\<lambda>s.
        let badge_lower = py_strip (py_lower s)
        in Inr (PStr (case map_of BADGE_MAPPING badge_lower of
                        Some tag \<Rightarrow> tag
                      | None \<Rightarrow> replace_char CHR ''-'' CHR ''_''
                                 (replace_char CHR '' '' CHR ''_'' badge_lower)))))"

definition get_affiliate_tag :: "string \<Rightarrow> string" where
  "get_affiliate_tag retailer =
     (let retailer_lower = py_lower retailer
      in if py_in ''amazon'' retailer_lower then DEFAULT_AFFILIATE_TAG_AMAZON
         else if py_in ''walmart'' retailer_lower then DEFAULT_AFFILIATE_TAG_WALMART
         else if py_in ''target'' retailer_lower then DEFAULT_AFFILIATE_TAG_TARGET
         else DEFAULT_AFFILIATE_TAG_OTHER)"

section \<open>Converters\<close>

text \<open>
  \<^verbatim>\<open>v1_link[key] = f(link[key])\<close> under the guard
  \<^verbatim>\<open>key in link and link[key] is not None\<close>.
\<close>

definition add_optional ::
  "py \<Rightarrow> string \<Rightarrow> (py \<Rightarrow> error + py) \<Rightarrow> (py \<times> py) list \<Rightarrow> error + (py \<times> py) list" where
  "add_optional link k f v1_link =
     ebind (py_contains link k) (\<lambda>present.
       if \<not> present then Inr v1_link
       else ebind (py_getitem link k) (\<lambda>v.
         if v = PNone then Inr v1_link
         else ebind (f v) (\<lambda>w. Inr (dict_set v1_link (PStr k) w))))"

definition convert_link :: "py \<Rightarrow> int \<Rightarrow> error + py" where
  "convert_link link priority_index =
     ebind (py_get link ''retailer'' (PStr [])) (\<lambda>r.
     ebind (as_str r) (\<lambda>rs.
     let retailer = normalize_retailer rs in
     ebind (py_getitem link ''url'') (\<lambda>url.
     ebind (py_get link ''displayName'' PNone) (\<lambda>display_name.
     let v1_link =
           [(PStr ''retailer'', PStr retailer),
            (PStr ''url'', url),
            (PStr ''displayName'', display_name),
            (PStr ''affiliateTag'', PStr (get_affiliate_tag retailer)),
            (PStr ''priority'', PInt (priority_index + 1))] in
     ebind (add_optional link ''averageRating'' Inr v1_link) (\<lambda>v1_link.
     ebind (add_optional link ''reviewCount'' Inr v1_link) (\<lambda>v1_link.
     ebind (add_optional link ''badge'' normalize_badge v1_link) (\<lambda>v1_link.
     Inr (PDict v1_link))))))))"

text \<open>The list comprehension over \<^verbatim>\<open>enumerate(affiliate_links)\<close>, from index \<open>idx\<close> on.\<close>

fun convert_links :: "py list \<Rightarrow> int \<Rightarrow> error + py list" where
  "convert_links [] idx = Inr []"
| "convert_links (link # links) idx =
     ebind (convert_link link idx) (\<lambda>v.
     ebind (convert_links links (idx + 1)) (\<lambda>vs. Inr (v # vs)))"

definition convert_item :: "py \<Rightarrow> error + (py \<times> py)" where
  "convert_item item =
     ebind (py_getitem item ''id'') (\<lambda>item_id.
     ebind (py_get item ''affiliateLinks'' (PList [])) (\<lambda>affiliate_links.
     ebind (py_iter affiliate_links) (\<lambda>links.
     ebind (convert_links links 0) (\<lambda>v1_links.
     Inr (item_id,
          PDict [(PStr ''itemVersion'', PInt 1), (PStr ''links'', PList v1_links)])))))"

text \<open>
  The loop of \<^verbatim>\<open>convert_category\<close> over the items, with the dictionary built so far;
  an item id that is a list or a dictionary cannot be a key.
\<close>

fun convert_items :: "py list \<Rightarrow> (py \<times> py) list \<Rightarrow> error + (py \<times> py) list" where
  "convert_items [] items_dict = Inr items_dict"
| "convert_items (item # items) items_dict =
     ebind (convert_item item) (\<lambda>(item_id, item_config).
       if hashable item_id
       then convert_items items (dict_set items_dict item_id item_config)
       else Inl TypeError)"

text \<open>\<open>today\<close> is the module constant \<^verbatim>\<open>TODAY\<close>, the date string of the run.\<close>

definition convert_category :: "string \<Rightarrow> py \<Rightarrow> error + py" where
  "convert_category today v2_data =
     ebind (py_getitem v2_data ''id'') (\<lambda>category_id.
     ebind (py_get v2_data ''items'' (PList [])) (\<lambda>items_array.
     ebind (py_iter items_array) (\<lambda>items.
     ebind (convert_items items []) (\<lambda>items_dict.
     Inr (PDict [(PStr ''categoryId'', category_id),
                 (PStr ''version'', PInt VERSION),
                 (PStr ''lastUpdated'', PStr today),
                 (PStr ''items'', PDict items_dict)])))))"

section \<open>The file pipeline and the batch driver\<close>

text \<open>
  What the run depends on outside the program: the date, \<^verbatim>\<open>json.loads\<close> (the
  standard library's parser, taken as it is), the text of each input file (or the
  exception that opening or reading it raises), the exception, if any, that writing an
  output file raises, and the state of the \<^verbatim>\<open>v2\<close> and \<^verbatim>\<open>v1\<close> directories. Files
  are named by their last path component. Console output is kept as the kind of line a
  conversion prints and is assumed not to raise.
\<close>

type_synonym path = string

record env =
  TODAY :: string
  json_loads :: "string \<Rightarrow> error + py"
  read_text :: "path \<Rightarrow> error + string"
  write_raises :: "path \<Rightarrow> error option"
  v2_dir_exists :: bool
  mkdir_raises :: "error option"
  glob_json :: "path list"

text \<open>
  The parsing policy of \<^verbatim>\<open>convert_file\<close>: a content that starts with a double quote
  is wrapped in braces and parsed; \<^verbatim>\<open>list(wrapped_data.keys())[0]\<close> is the first key
  of the dictionary and \<^verbatim>\<open>wrapped_data[category_key]\<close> its value, which gets the key
  as its \<^verbatim>\<open>id\<close> unless it has one.
\<close>

definition load_v2 :: "(string \<Rightarrow> error + py) \<Rightarrow> string \<Rightarrow> error + py" where
  "load_v2 loads content =
     (if startswith content [CHR 0x22] then
        ebind (loads (''{'' @ content @ ''}'')) (\<lambda>wrapped_data.
        ebind (py_keys wrapped_data) (\<lambda>keys.
        ebind (py_values wrapped_data) (\<lambda>vals.
        case (keys, vals) of
          (category_key # _, v2_data # _) \<Rightarrow>
            ebind (py_contains v2_data ''id'') (\<lambda>present.
              if \<not> present then py_setitem v2_data ''id'' category_key
              else Inr v2_data)
        | _ \<Rightarrow> Inl IndexError)))
      else loads content)"

text \<open>The statistics of the success line: \<^verbatim>\<open>sum(len(item["links"]) for item in ...)\<close>.\<close>

fun count_links :: "py list \<Rightarrow> error + nat" where
  "count_links [] = Inr 0"
| "count_links (item # items) =
     ebind (py_getitem item ''links'') (\<lambda>links.
     ebind (py_len links) (\<lambda>n.
     ebind (count_links items) (\<lambda>m. Inr (n + m))))"

definition statistics :: "py \<Rightarrow> error + (nat \<times> nat)" where
  "statistics v1_data =
     ebind (py_getitem v1_data ''items'') (\<lambda>items.
     ebind (py_len items) (\<lambda>item_count.
     ebind (py_values items) (\<lambda>item_docs.
     ebind (count_links item_docs) (\<lambda>link_count.
     Inr (item_count, link_count)))))"

datatype report =
    Success_line nat nat
  | Json_decode_error_line
  | Missing_required_field_line string
  | Error_converting_line error

record outcome =
  returned :: bool
  printed :: report
  written :: "py option"

text \<open>The three \<^verbatim>\<open>except\<close> clauses: each prints its line and returns \<^verbatim>\<open>False\<close>.\<close>

definition handler :: "error \<Rightarrow> py option \<Rightarrow> outcome" where
  "handler e w =
     (case e of
        JSONDecodeError \<Rightarrow> \<lparr>returned = False, printed = Json_decode_error_line, written = w\<rparr>
      | KeyError k \<Rightarrow> \<lparr>returned = False, printed = Missing_required_field_line k, written = w\<rparr>
      | _ \<Rightarrow> \<lparr>returned = False, printed = Error_converting_line e, written = w\<rparr>)"

text \<open>
  The \<^verbatim>\<open>try\<close> block up to the write: read and trim the file, parse, convert, write.
\<close>

definition convert_and_write :: "env \<Rightarrow> path \<Rightarrow> path \<Rightarrow> error + py" where
  "convert_and_write env input_path output_path =
     ebind (read_text env input_path) (\<lambda>text.
     let content = py_strip text in
     ebind (load_v2 (json_loads env) content) (\<lambda>v2_data.
     ebind (convert_category (TODAY env) v2_data) (\<lambda>v1_data.
     case write_raises env output_path of
       Some e \<Rightarrow> Inl e
     | None \<Rightarrow> Inr v1_data)))"

definition convert_file :: "env \<Rightarrow> path \<Rightarrow> path \<Rightarrow> outcome" where
  "convert_file env input_path output_path =
     (case convert_and_write env input_path output_path of
        Inl e \<Rightarrow> handler e None
      | Inr v1_data \<Rightarrow>
          (case statistics v1_data of
             Inl e \<Rightarrow> handler e (Some v1_data)
           | Inr (item_count, link_count) \<Rightarrow>
               \<lparr>returned = True, printed = Success_line item_count link_count,
                written = Some v1_data\<rparr>))"



section \<open>Source data as the data model types it\<close>

text \<open>
  The value of a field of a JSON object, and the source entities of the data model with
  any field possibly absent: a link is an object whose \<^verbatim>\<open>retailer\<close>, when present, is
  a string and whose \<^verbatim>\<open>badge\<close>, when present, is a string or null; an item is an
  object whose \<^verbatim>\<open>id\<close>, when present, is a string and whose \<^verbatim>\<open>affiliateLinks\<close>,
  when present, is an array of links; a category is an object whose \<^verbatim>\<open>items\<close>, when
  present, is an array of items. The other fields are not constrained.
\<close>

definition field :: "py \<Rightarrow> string \<Rightarrow> py option" where
  "field obj k = (case obj of PDict d \<Rightarrow> dict_get d (PStr k) | _ \<Rightarrow> None)"

definition has_field :: "py \<Rightarrow> string \<Rightarrow> bool" where
  "has_field obj k = (field obj k \<noteq> None)"

definition is_str :: "py \<Rightarrow> bool" where
  "is_str v = (case v of PStr s \<Rightarrow> True | _ \<Rightarrow> False)"

definition is_dict :: "py \<Rightarrow> bool" where
  "is_dict v = (case v of PDict d \<Rightarrow> True | _ \<Rightarrow> False)"

definition source_link :: "py \<Rightarrow> bool" where
  "source_link link =
     (is_dict link
      \<and> (case field link ''retailer'' of None \<Rightarrow> True | Some v \<Rightarrow> is_str v)
      \<and> (case field link ''badge'' of None \<Rightarrow> True | Some v \<Rightarrow> v = PNone \<or> is_str v))"

definition links_of :: "py \<Rightarrow> py list" where
  "links_of item = (case field item ''affiliateLinks'' of Some (PList ls) \<Rightarrow> ls | _ \<Rightarrow> [])"

definition source_item :: "py \<Rightarrow> bool" where
  "source_item item =
     (is_dict item
      \<and> (case field item ''id'' of None \<Rightarrow> True | Some v \<Rightarrow> is_str v)
      \<and> (case field item ''affiliateLinks'' of
            None \<Rightarrow> True
          | Some (PList ls) \<Rightarrow> list_all source_link ls
          | _ \<Rightarrow> False))"

definition items_of :: "py \<Rightarrow> py list" where
  "items_of category = (case field category ''items'' of Some (PList its) \<Rightarrow> its | _ \<Rightarrow> [])"

definition source_category :: "py \<Rightarrow> bool" where
  "source_category category =
     (is_dict category
      \<and> (case field category ''items'' of
            None \<Rightarrow> True
          | Some (PList its) \<Rightarrow> list_all source_item its
          | _ \<Rightarrow> False))"

section \<open>Example data\<close>


text \<open>A link without retailer, a category without items, an item without links.\<close>

definition link_without_retailer :: py where
  "link_without_retailer = PDict [(PStr ''url'', PStr ''http://w''), (PStr ''badge'', PNone)]"

definition category_without_items :: py where
  "category_without_items = PDict [(PStr ''id'', PStr ''kitchen''), (PStr ''label'', PStr ''Kitchen'')]"

definition item_without_links :: py where
  "item_without_links = PDict [(PStr ''id'', PStr ''mini-fridge''), (PStr ''name'', PStr ''Mini Fridge'')]"

text \<open>A category in which the first and the last item share an id.\<close>

definition duplicate_id_category :: py where
  "duplicate_id_category =
     PDict [(PStr ''id'', PStr ''lighting''),
            (PStr ''items'', PList
              [PDict [(PStr ''id'', PStr ''lamp''),
                      (PStr ''affiliateLinks'', PList
                         [PDict [(PStr ''retailer'', PStr ''Amazon''), (PStr ''url'', PStr ''http://a'')]])],
               PDict [(PStr ''id'', PStr ''rug'')],
               PDict [(PStr ''id'', PStr ''lamp''), (PStr ''name'', PStr ''Clip Lamp'')]])]"

text \<open>
  The end-to-end example: the text of the bare fragment, the value that
  \<^verbatim>\<open>json.loads\<close> returns for the fragment in braces, and the expected document.
\<close>

definition example_fragment :: string where
  \<open>example_fragment = ''"bedding_sleep": {"label":"Bedding & Sleep","items":[{"id":"twin-xl-sheets","affiliateLinks":[{"retailer":"Amazon","url":"http://x","averageRating":4.5,"reviewCount":400000,"badge":"budget best-seller"}]}]}''\<close>

definition example_wrapped :: py where
  "example_wrapped =
     PDict [(PStr ''bedding_sleep'',
       PDict [(PStr ''label'', PStr ''Bedding & Sleep''),
              (PStr ''items'', PList
                [PDict [(PStr ''id'', PStr ''twin-xl-sheets''),
                        (PStr ''affiliateLinks'', PList
                          [PDict [(PStr ''retailer'', PStr ''Amazon''),
                                  (PStr ''url'', PStr ''http://x''),
                                  (PStr ''averageRating'', PFloat (9 / 2)),
                                  (PStr ''reviewCount'', PInt 400000),
                                  (PStr ''badge'', PStr ''budget best-seller'')]])]])])]"

definition example_output :: "string \<Rightarrow> py" where
  "example_output run_date =
     PDict [(PStr ''categoryId'', PStr ''bedding_sleep''),
            (PStr ''version'', PInt 3),
            (PStr ''lastUpdated'', PStr run_date),
            (PStr ''items'', PDict
              [(PStr ''twin-xl-sheets'',
                PDict [(PStr ''itemVersion'', PInt 1),
                       (PStr ''links'', PList
                         [PDict [(PStr ''retailer'', PStr ''amazon''),
                                 (PStr ''url'', PStr ''http://x''),
                                 (PStr ''displayName'', PNone),
                                 (PStr ''affiliateTag'', PStr ''dormready-20''),
                                 (PStr ''priority'', PInt 1),
                                 (PStr ''averageRating'', PFloat (9 / 2)),
                                 (PStr ''reviewCount'', PInt 400000),
                                 (PStr ''badge'', PStr ''best_seller'')]])])])]"

text \<open>
  A run over four files: the fragment above (with white space around it), a text that
  is not JSON, a category one of whose items has no id, and a category without items.
  The parser of the example knows the three texts that are JSON and reports a decode
  error for any other.
\<close>

definition kitchen_text :: string where
  \<open>kitchen_text = ''{"id": "kitchen", "items": [{"id": "kettle"}, {"name": "Mini Fridge"}]}''\<close>

definition kitchen_value :: py where
  "kitchen_value =
     PDict [(PStr ''id'', PStr ''kitchen''),
            (PStr ''items'', PList [PDict [(PStr ''id'', PStr ''kettle'')],
                                    PDict [(PStr ''name'', PStr ''Mini Fridge'')]])]"

definition lighting_text :: string where
  \<open>lighting_text = ''{"id": "lighting", "label": "Lighting"}''\<close>

definition lighting_value :: py where
  "lighting_value = PDict [(PStr ''id'', PStr ''lighting''), (PStr ''label'', PStr ''Lighting'')]"

definition example_loads :: "string \<Rightarrow> error + py" where
  "example_loads s =
     (case map_of [(''{'' @ example_fragment @ ''}'', example_wrapped),
                   (kitchen_text, kitchen_value),
                   (lighting_text, lighting_value)] s of
        Some v \<Rightarrow> Inr v
      | None \<Rightarrow> Inl JSONDecodeError)"

definition example_files :: "(path \<times> string) list" where
  \<open>example_files =
     [(''v2/bedding.json'', ''  '' @ example_fragment @ [CHR 0x0A]),
      (''v2/broken.json'', ''{"id": "desk", ''),
      (''v2/kitchen.json'', kitchen_text @ [CHR 0x0A]),
      (''v2/lighting.json'', lighting_text)]\<close>

definition example_env :: env where
  "example_env =
     \<lparr>TODAY = ''2025-12-01'',
      json_loads = example_loads,
      read_text = (\<lambda>p. case map_of example_files p of Some t \<Rightarrow> Inr t | None \<Rightarrow> Inl OSError),
      write_raises = (\<lambda>p. None),
      v2_dir_exists = True,
      mkdir_raises = None,
      glob_json = [''bedding.json'', ''broken.json'', ''kitchen.json'', ''lighting.json'']\<rparr>"

section \<open>Properties of the string operations\<close>

lemma lower_char_idem: "lower_char (lower_char c) = lower_char c"
proof -
  have "of_char c < (256::nat)" by simp
  then show ?thesis
    unfolding lower_char_def Let_def
    by (auto simp: mod_if)
qed

lemma py_lower_idem: "py_lower (py_lower s) = py_lower s"
  by (simp add: py_lower_def lower_char_idem)

lemma dropWhile_strip: "dropWhile P (rev (dropWhile P (rev (dropWhile P xs)))) = rev (dropWhile P (rev (dropWhile P xs)))"
proof -
  define ys where "ys = dropWhile P xs"
  define zs where "zs = rev (dropWhile P (rev ys))"
  have ys: "ys = zs @ rev (takeWhile P (rev ys))"
    unfolding zs_def by (metis rev_append rev_rev_ident takeWhile_dropWhile_id)
  have "dropWhile P zs = zs"
  proof (cases "zs = []")
    case True
    then show ?thesis by simp
  next
    case False
    then have "ys \<noteq> []" using ys by auto
    then have "\<not> P (hd ys)" unfolding ys_def by (rule hd_dropWhile)
    moreover have "hd ys = hd zs" using ys False by (metis hd_append2)
    ultimately show ?thesis by (simp add: dropWhile_eq_self_iff)
  qed
  then show ?thesis by (simp add: zs_def ys_def)
qed

lemma py_strip_idem: "py_strip (py_strip s) = py_strip s"
  by (simp add: py_strip_def dropWhile_strip)

lemma set_py_strip: "set (py_strip s) \<subseteq> set s"
proof -
  have "set (py_strip s) \<subseteq> set (dropWhile isspace s)"
    unfolding py_strip_def using set_dropWhileD by fastforce
  also have "\<dots> \<subseteq> set s" using set_dropWhileD by fastforce
  finally show ?thesis .
qed

lemma py_lower_strip_lower: "py_lower (py_strip (py_lower s)) = py_strip (py_lower s)"
proof -
  have "\<forall>c \<in> set (py_strip (py_lower s)). lower_char c = c"
    using set_py_strip [of "py_lower s"] by (auto simp: py_lower_def lower_char_idem)
  then show ?thesis by (simp add: py_lower_def map_idI)
qed

lemma normalize_retailer_idem: "normalize_retailer (normalize_retailer s) = normalize_retailer s"
  by (simp add: normalize_retailer_def py_lower_strip_lower py_strip_idem)

text \<open>
  Claim C7. Retailer normalization is idempotent: normalizing a normalized string
  changes nothing. In particular a string that is already lower case and trimmed (it is
  its own \<open>py_lower\<close> and its own \<open>py_strip\<close>) is returned unchanged, and the empty
  string normalizes to the empty string.
\<close>

theorem normalize_retailer_idempotent:
  "normalize_retailer (normalize_retailer s) = normalize_retailer s
   \<and> (py_lower s = s \<and> py_strip s = s \<longrightarrow> normalize_retailer s = s)
   \<and> normalize_retailer [] = []"
proof (intro conjI impI)
  show "normalize_retailer (normalize_retailer s) = normalize_retailer s"
    by (simp add: normalize_retailer_def py_lower_strip_lower py_strip_idem)
  show "normalize_retailer s = s" if "py_lower s = s \<and> py_strip s = s"
    using that by (simp add: normalize_retailer_def)
  show "normalize_retailer [] = []"
    by (simp add: normalize_retailer_def py_lower_def py_strip_def)
qed

theorem normalize_retailer_idempotent_witness:
  "py_lower ''amazon fresh'' = ''amazon fresh'' \<and> py_strip ''amazon fresh'' = ''amazon fresh''
   \<and> normalize_retailer ''amazon fresh'' = ''amazon fresh''
   \<and> normalize_retailer (normalize_retailer '' Amazon Fresh '') = ''amazon fresh''"
proof -
  have l: "py_lower ''amazon fresh'' = ''amazon fresh''" by code_simp
  have s: "py_strip ''amazon fresh'' = ''amazon fresh''" by code_simp
  have n: "normalize_retailer '' Amazon Fresh '' = ''amazon fresh''" by code_simp
  from normalize_retailer_idempotent [of "''amazon fresh''"] l s
  have "normalize_retailer ''amazon fresh'' = ''amazon fresh''" by blast
  with l s n show ?thesis by simp
qed

lemma startswith_iff: "startswith s p \<longleftrightarrow> (\<exists>post. s = p @ post)"
  by (induction s p rule: startswith.induct) auto

lemma py_in_iff: "py_in sub s \<longleftrightarrow> (\<exists>pre post. s = pre @ sub @ post)"
proof (induction s)
  case Nil
  then show ?case by auto
next
  case (Cons c s)
  have "(\<exists>pre post. c # s = pre @ sub @ post) \<longleftrightarrow>
        (\<exists>post. c # s = sub @ post) \<or> (\<exists>pre post. s = pre @ sub @ post)"
  proof
    assume "\<exists>pre post. c # s = pre @ sub @ post"
    then obtain pre post where e: "c # s = pre @ sub @ post" by blast
    show "(\<exists>post. c # s = sub @ post) \<or> (\<exists>pre post. s = pre @ sub @ post)"
    proof (cases pre)
      case Nil
      with e show ?thesis by auto
    next
      case (Cons a pre')
      with e have "s = pre' @ sub @ post" by simp
      then show ?thesis by blast
    qed
  next
    assume "(\<exists>post. c # s = sub @ post) \<or> (\<exists>pre post. s = pre @ sub @ post)"
    then show "\<exists>pre post. c # s = pre @ sub @ post"
    proof
      assume "\<exists>post. c # s = sub @ post"
      then obtain post where "c # s = [] @ sub @ post" by auto
      then show ?thesis by blast
    next
      assume "\<exists>pre post. s = pre @ sub @ post"
      then obtain pre post where "c # s = (c # pre) @ sub @ post" by auto
      then show ?thesis by blast
    qed
  qed
  then show ?case by (simp add: Cons startswith_iff del: startswith.simps)
qed

section \<open>The affiliate tag resolver\<close>

text \<open>
  Claim C6. The tag is decided by the first of the words amazon, walmart, target that
  occurs as a substring of the lower-cased retailer name, and is the generic default
  when none occurs; so Amazon, amazon fresh and AMAZON.COM get the Amazon tag, walmart
  the Walmart tag and Target the Target tag.
\<close>

theorem get_affiliate_tag_resolution:
  "((\<exists>pre post. py_lower r = pre @ ''amazon'' @ post)
      \<longrightarrow> get_affiliate_tag r = DEFAULT_AFFILIATE_TAG_AMAZON)
   \<and> (\<not> (\<exists>pre post. py_lower r = pre @ ''amazon'' @ post)
        \<and> (\<exists>pre post. py_lower r = pre @ ''walmart'' @ post)
      \<longrightarrow> get_affiliate_tag r = DEFAULT_AFFILIATE_TAG_WALMART)
   \<and> (\<not> (\<exists>pre post. py_lower r = pre @ ''amazon'' @ post)
        \<and> \<not> (\<exists>pre post. py_lower r = pre @ ''walmart'' @ post)
        \<and> (\<exists>pre post. py_lower r = pre @ ''target'' @ post)
      \<longrightarrow> get_affiliate_tag r = DEFAULT_AFFILIATE_TAG_TARGET)
   \<and> (\<not> (\<exists>pre post. py_lower r = pre @ ''amazon'' @ post)
        \<and> \<not> (\<exists>pre post. py_lower r = pre @ ''walmart'' @ post)
        \<and> \<not> (\<exists>pre post. py_lower r = pre @ ''target'' @ post)
      \<longrightarrow> get_affiliate_tag r = DEFAULT_AFFILIATE_TAG_OTHER)
   \<and> get_affiliate_tag ''Amazon'' = DEFAULT_AFFILIATE_TAG_AMAZON
   \<and> get_affiliate_tag ''amazon fresh'' = DEFAULT_AFFILIATE_TAG_AMAZON
   \<and> get_affiliate_tag ''AMAZON.COM'' = DEFAULT_AFFILIATE_TAG_AMAZON
   \<and> get_affiliate_tag ''walmart'' = DEFAULT_AFFILIATE_TAG_WALMART
   \<and> get_affiliate_tag ''Target'' = DEFAULT_AFFILIATE_TAG_TARGET"
proof -
  have chain: "get_affiliate_tag r =
      (if (\<exists>pre post. py_lower r = pre @ ''amazon'' @ post) then DEFAULT_AFFILIATE_TAG_AMAZON
       else if (\<exists>pre post. py_lower r = pre @ ''walmart'' @ post) then DEFAULT_AFFILIATE_TAG_WALMART
       else if (\<exists>pre post. py_lower r = pre @ ''target'' @ post) then DEFAULT_AFFILIATE_TAG_TARGET
       else DEFAULT_AFFILIATE_TAG_OTHER)"
    unfolding get_affiliate_tag_def Let_def py_in_iff ..
  have e1: "get_affiliate_tag ''Amazon'' = DEFAULT_AFFILIATE_TAG_AMAZON" by code_simp
  have e2: "get_affiliate_tag ''amazon fresh'' = DEFAULT_AFFILIATE_TAG_AMAZON" by code_simp
  have e3: "get_affiliate_tag ''AMAZON.COM'' = DEFAULT_AFFILIATE_TAG_AMAZON" by code_simp
  have e4: "get_affiliate_tag ''walmart'' = DEFAULT_AFFILIATE_TAG_WALMART" by code_simp
  have e5: "get_affiliate_tag ''Target'' = DEFAULT_AFFILIATE_TAG_TARGET" by code_simp
  show ?thesis by (intro conjI impI) (simp_all only: chain e1 e2 e3 e4 e5 if_True if_False)
qed

theorem get_affiliate_tag_resolution_witness:
  "\<not> (\<exists>pre post. py_lower ''Walmart Grocery'' = pre @ ''amazon'' @ post)
   \<and> (\<exists>pre post. py_lower ''Walmart Grocery'' = pre @ ''walmart'' @ post)
   \<and> get_affiliate_tag ''Walmart Grocery'' = ''dormready''
   \<and> (\<exists>pre post. py_lower ''Amazon Walmart'' = pre @ ''amazon'' @ post)
   \<and> get_affiliate_tag ''Amazon Walmart'' = ''dormready-20''
   \<and> \<not> (\<exists>pre post. py_lower ''Best Buy'' = pre @ ''amazon'' @ post)
   \<and> \<not> (\<exists>pre post. py_lower ''Best Buy'' = pre @ ''walmart'' @ post)
   \<and> \<not> (\<exists>pre post. py_lower ''Best Buy'' = pre @ ''target'' @ post)
   \<and> get_affiliate_tag ''Best Buy'' = ''dormready''
   \<and> \<not> (\<exists>pre post. py_lower ''SuperTarget'' = pre @ ''amazon'' @ post)
   \<and> \<not> (\<exists>pre post. py_lower ''SuperTarget'' = pre @ ''walmart'' @ post)
   \<and> (\<exists>pre post. py_lower ''SuperTarget'' = pre @ ''target'' @ post)
   \<and> get_affiliate_tag ''SuperTarget'' = ''dormready''"
proof -
  have w1: "\<not> py_in ''amazon'' (py_lower ''Walmart Grocery'')" by code_simp
  have w2: "py_in ''walmart'' (py_lower ''Walmart Grocery'')" by code_simp
  have a1: "py_in ''amazon'' (py_lower ''Amazon Walmart'')" by code_simp
  have b1: "\<not> py_in ''amazon'' (py_lower ''Best Buy'')" by code_simp
  have b2: "\<not> py_in ''walmart'' (py_lower ''Best Buy'')" by code_simp
  have b3: "\<not> py_in ''target'' (py_lower ''Best Buy'')" by code_simp
  have t1: "\<not> py_in ''amazon'' (py_lower ''SuperTarget'')" by code_simp
  have t2: "\<not> py_in ''walmart'' (py_lower ''SuperTarget'')" by code_simp
  have t3: "py_in ''target'' (py_lower ''SuperTarget'')" by code_simp
  have r1: "get_affiliate_tag ''Walmart Grocery'' = DEFAULT_AFFILIATE_TAG_WALMART"
    using get_affiliate_tag_resolution [of "''Walmart Grocery''"] w1 w2
    unfolding py_in_iff by blast
  have r2: "get_affiliate_tag ''Amazon Walmart'' = DEFAULT_AFFILIATE_TAG_AMAZON"
    using get_affiliate_tag_resolution [of "''Amazon Walmart''"] a1
    unfolding py_in_iff by blast
  have r3: "get_affiliate_tag ''Best Buy'' = DEFAULT_AFFILIATE_TAG_OTHER"
    using get_affiliate_tag_resolution [of "''Best Buy''"] b1 b2 b3
    unfolding py_in_iff by blast
  have r4: "get_affiliate_tag ''SuperTarget'' = DEFAULT_AFFILIATE_TAG_TARGET"
    using get_affiliate_tag_resolution [of "''SuperTarget''"] t1 t2 t3
    unfolding py_in_iff by blast
  show ?thesis
    using w1 w2 a1 b1 b2 b3 t1 t2 t3 r1 r2 r3 r4
    unfolding py_in_iff DEFAULT_AFFILIATE_TAG_AMAZON_def DEFAULT_AFFILIATE_TAG_WALMART_def
      DEFAULT_AFFILIATE_TAG_TARGET_def DEFAULT_AFFILIATE_TAG_OTHER_def
    by (intro conjI) assumption+
qed

section \<open>The badge normalizer\<close>

lemma normalize_badge_missing: "normalize_badge PNone = Inr PNone" "normalize_badge (PStr []) = Inr PNone"
  by (simp_all add: normalize_badge_def)

lemma normalize_badge_str:
  "s \<noteq> [] \<Longrightarrow> normalize_badge (PStr s) =
     Inr (PStr (case map_of BADGE_MAPPING (py_strip (py_lower s)) of
                  Some tag \<Rightarrow> tag
                | None \<Rightarrow> replace_char CHR ''-'' CHR ''_''
                           (replace_char CHR '' '' CHR ''_'' (py_strip (py_lower s)))))"
  by (simp add: normalize_badge_def as_str_def ebind_def Let_def)

lemma normalize_badge_table:
  "\<forall>(phrase, tag) \<in> set BADGE_MAPPING.
     phrase = ''Amazon no.1 best-seller'' \<or> normalize_badge (PStr phrase) = Inr (PStr tag)"
proof -
  have "list_all (\<lambda>(phrase, tag). phrase = ''Amazon no.1 best-seller''
          \<or> normalize_badge (PStr phrase) = Inr (PStr tag)) BADGE_MAPPING"
    by code_simp
  then show ?thesis by (simp add: list_all_iff)
qed

lemma normalize_badge_examples:
  "normalize_badge (PStr ''Budget Best-Seller'') = Inr (PStr ''best_seller'')"
  "normalize_badge (PStr ''Extra Soft'') = Inr (PStr ''extra_soft'')"
  by code_simp+

text \<open>
  Claim C4. The table maps the phrase Amazon no.1 best-seller to best_seller, but the
  normalizer looks the lower-cased phrase up, which is not a key of the table, and
  returns the mechanical tag amazon_no.1_best_seller.
\<close>

theorem normalize_badge_amazon_no1:
  "map_of BADGE_MAPPING ''Amazon no.1 best-seller'' = Some ''best_seller''
   \<and> normalize_badge (PStr ''Amazon no.1 best-seller'') = Inr (PStr ''amazon_no.1_best_seller'')"
  by code_simp

section \<open>Dictionaries with string keys\<close>

lemma key_eq_PStr [simp]: "key_eq k (PStr s) = (k = PStr s)" "key_eq (PStr s) k = (k = PStr s)"
  by (cases k; auto simp: key_eq_def)+

lemma dict_get_dict_set_PStr:
  "dict_get (dict_set d (PStr s) v) k = (if k = PStr s then Some v else dict_get d k)"
  by (induction d) auto

lemma keys_dict_set_PStr: "fst ` set (dict_set d (PStr s) v) = insert (PStr s) (fst ` set d)"
proof (induction d)
  case Nil
  show ?case by simp
next
  case (Cons p d)
  obtain k' v' where p: "p = (k', v')" by (cases p)
  show ?case
  proof (cases "k' = PStr s")
    case True
    then show ?thesis by (simp add: p insert_absorb)
  next
    case False
    then show ?thesis by (simp add: p Cons insert_commute)
  qed
qed

lemma field_PDict [simp]: "field (PDict d) k = dict_get d (PStr k)"
  by (simp add: field_def)

lemma is_dict_iff: "is_dict v \<longleftrightarrow> (\<exists>d. v = PDict d)"
  by (cases v) (simp_all add: is_dict_def)

lemma is_str_iff: "is_str v \<longleftrightarrow> (\<exists>s. v = PStr s)"
  by (cases v) (simp_all add: is_str_def)

section \<open>The link converter\<close>

lemma add_optional_dict:
  "add_optional (PDict d) k f v1 =
     (case dict_get d (PStr k) of
        None \<Rightarrow> Inr v1
      | Some v \<Rightarrow> if v = PNone then Inr v1 else ebind (f v) (\<lambda>w. Inr (dict_set v1 (PStr k) w)))"
  by (simp add: add_optional_def py_contains_def py_getitem_def ebind_def split: option.splits)

lemma add_optional_ok:
  assumes "\<And>v. dict_get d (PStr k) = Some v \<Longrightarrow> v \<noteq> PNone \<Longrightarrow> f v = Inr (g v)"
  shows "\<exists>v1'. add_optional (PDict d) k f v1 = Inr v1'
     \<and> (\<forall>k'. dict_get v1' k' =
          (case dict_get d (PStr k) of
             None \<Rightarrow> dict_get v1 k'
           | Some v \<Rightarrow> if v = PNone \<or> k' \<noteq> PStr k then dict_get v1 k' else Some (g v)))"
proof (cases "dict_get d (PStr k)")
  case None
  then show ?thesis by (simp add: add_optional_dict)
next
  case (Some v)
  show ?thesis
  proof (cases "v = PNone")
    case True
    with Some show ?thesis by (simp add: add_optional_dict)
  next
    case False
    with Some assms have "f v = Inr (g v)" by simp
    with Some False show ?thesis
      by (simp add: add_optional_dict ebind_def dict_get_dict_set_PStr)
  qed
qed

lemma normalize_badge_PStr: "normalize_badge (PStr s) = Inr (projr (normalize_badge (PStr s)))"
  by (simp add: normalize_badge_def as_str_def ebind_def Let_def)

lemma convert_link_typed:
  assumes typed: "source_link (PDict d)"
    and url: "dict_get d (PStr ''url'') = Some u"
  shows "\<exists>out. convert_link (PDict d) i = Inr (PDict out)
     \<and> dict_get out (PStr ''retailer'') =
         Some (PStr (normalize_retailer
           (case dict_get d (PStr ''retailer'') of Some (PStr s) \<Rightarrow> s | _ \<Rightarrow> [])))
     \<and> dict_get out (PStr ''url'') = Some u
     \<and> dict_get out (PStr ''displayName'') =
         Some (case dict_get d (PStr ''displayName'') of Some v \<Rightarrow> v | None \<Rightarrow> PNone)
     \<and> dict_get out (PStr ''affiliateTag'') =
         Some (PStr (get_affiliate_tag (normalize_retailer
           (case dict_get d (PStr ''retailer'') of Some (PStr s) \<Rightarrow> s | _ \<Rightarrow> []))))
     \<and> dict_get out (PStr ''priority'') = Some (PInt (i + 1))
     \<and> dict_get out (PStr ''averageRating'') =
         (case dict_get d (PStr ''averageRating'') of
            Some v \<Rightarrow> if v = PNone then None else Some v | None \<Rightarrow> None)
     \<and> dict_get out (PStr ''reviewCount'') =
         (case dict_get d (PStr ''reviewCount'') of
            Some v \<Rightarrow> if v = PNone then None else Some v | None \<Rightarrow> None)
     \<and> dict_get out (PStr ''badge'') =
         (case dict_get d (PStr ''badge'') of
            Some v \<Rightarrow> if v = PNone then None else Some (projr (normalize_badge v))
          | None \<Rightarrow> None)"
proof -
  define rs where "rs = (case dict_get d (PStr ''retailer'') of Some (PStr s) \<Rightarrow> s | _ \<Rightarrow> [])"
  define base where "base =
     [(PStr ''retailer'', PStr (normalize_retailer rs)),
      (PStr ''url'', u),
      (PStr ''displayName'', case dict_get d (PStr ''displayName'') of Some v \<Rightarrow> v | None \<Rightarrow> PNone),
      (PStr ''affiliateTag'', PStr (get_affiliate_tag (normalize_retailer rs))),
      (PStr ''priority'', PInt (i + 1))]"
  have ret: "py_get (PDict d) ''retailer'' (PStr []) = Inr (PStr rs)"
    using typed
    by (auto simp: source_link_def py_get_def rs_def is_str_iff split: option.splits)
  have start: "convert_link (PDict d) i =
     ebind (add_optional (PDict d) ''averageRating'' Inr base) (\<lambda>v1.
     ebind (add_optional (PDict d) ''reviewCount'' Inr v1) (\<lambda>v1.
     ebind (add_optional (PDict d) ''badge'' normalize_badge v1) (\<lambda>v1.
     Inr (PDict v1))))"
    unfolding convert_link_def ret
    by (simp add: ebind_def as_str_def py_getitem_def py_get_def url base_def Let_def)
  obtain v1 where v1: "add_optional (PDict d) ''averageRating'' Inr base = Inr v1"
    and g1: "\<And>k'. dict_get v1 k' =
          (case dict_get d (PStr ''averageRating'') of
             None \<Rightarrow> dict_get base k'
           | Some v \<Rightarrow> if v = PNone \<or> k' \<noteq> PStr ''averageRating'' then dict_get base k' else Some v)"
    using add_optional_ok [of d "''averageRating''" Inr "\<lambda>v. v" base] by auto
  obtain v2 where v2: "add_optional (PDict d) ''reviewCount'' Inr v1 = Inr v2"
    and g2: "\<And>k'. dict_get v2 k' =
          (case dict_get d (PStr ''reviewCount'') of
             None \<Rightarrow> dict_get v1 k'
           | Some v \<Rightarrow> if v = PNone \<or> k' \<noteq> PStr ''reviewCount'' then dict_get v1 k' else Some v)"
    using add_optional_ok [of d "''reviewCount''" Inr "\<lambda>v. v" v1] by auto
  have nb: "\<And>v. dict_get d (PStr ''badge'') = Some v \<Longrightarrow> v \<noteq> PNone
              \<Longrightarrow> normalize_badge v = Inr (projr (normalize_badge v))"
    using typed normalize_badge_PStr by (auto simp: source_link_def is_str_iff)
  obtain v3 where v3: "add_optional (PDict d) ''badge'' normalize_badge v2 = Inr v3"
    and g3: "\<And>k'. dict_get v3 k' =
          (case dict_get d (PStr ''badge'') of
             None \<Rightarrow> dict_get v2 k'
           | Some v \<Rightarrow> if v = PNone \<or> k' \<noteq> PStr ''badge'' then dict_get v2 k'
                       else Some (projr (normalize_badge v)))"
    using add_optional_ok [of d "''badge''" normalize_badge "\<lambda>v. projr (normalize_badge v)" v2, OF nb]
    by auto
  have res: "convert_link (PDict d) i = Inr (PDict v3)"
    by (simp add: start v1 v2 v3 ebind_def)
  have b: "dict_get base (PStr ''retailer'') = Some (PStr (normalize_retailer rs))"
    "dict_get base (PStr ''url'') = Some u"
    "dict_get base (PStr ''displayName'') =
       Some (case dict_get d (PStr ''displayName'') of Some v \<Rightarrow> v | None \<Rightarrow> PNone)"
    "dict_get base (PStr ''affiliateTag'') = Some (PStr (get_affiliate_tag (normalize_retailer rs)))"
    "dict_get base (PStr ''priority'') = Some (PInt (i + 1))"
    "dict_get base (PStr ''averageRating'') = None"
    "dict_get base (PStr ''reviewCount'') = None"
    "dict_get base (PStr ''badge'') = None"
    by (simp_all add: base_def)
  have "dict_get v3 (PStr ''retailer'') = Some (PStr (normalize_retailer rs))"
    by (simp add: g3 g2 g1 b split: option.splits)
  moreover have "dict_get v3 (PStr ''url'') = Some u"
    by (simp add: g3 g2 g1 b split: option.splits)
  moreover have "dict_get v3 (PStr ''displayName'') =
       Some (case dict_get d (PStr ''displayName'') of Some v \<Rightarrow> v | None \<Rightarrow> PNone)"
    by (simp add: g3 g2 g1 b split: option.splits)
  moreover have "dict_get v3 (PStr ''affiliateTag'') = Some (PStr (get_affiliate_tag (normalize_retailer rs)))"
    by (simp add: g3 g2 g1 b split: option.splits)
  moreover have "dict_get v3 (PStr ''priority'') = Some (PInt (i + 1))"
    by (simp add: g3 g2 g1 b split: option.splits)
  moreover have "dict_get v3 (PStr ''averageRating'') =
         (case dict_get d (PStr ''averageRating'') of
            Some v \<Rightarrow> if v = PNone then None else Some v | None \<Rightarrow> None)"
    by (simp add: g3 g2 g1 b split: option.splits)
  moreover have "dict_get v3 (PStr ''reviewCount'') =
         (case dict_get d (PStr ''reviewCount'') of
            Some v \<Rightarrow> if v = PNone then None else Some v | None \<Rightarrow> None)"
    by (simp add: g3 g2 g1 b split: option.splits)
  moreover have "dict_get v3 (PStr ''badge'') =
         (case dict_get d (PStr ''badge'') of
            Some v \<Rightarrow> if v = PNone then None else Some (projr (normalize_badge v))
          | None \<Rightarrow> None)"
    by (simp add: g3 g2 g1 b split: option.splits)
  ultimately show ?thesis
    using res unfolding rs_def by blast
qed

lemma convert_link_no_url:
  assumes "source_link link" "\<not> has_field link ''url''"
  shows "convert_link link i = Inl (KeyError ''url'')"
proof -
  from assms(1) obtain d where d: "link = PDict d" by (auto simp: source_link_def is_dict_iff)
  from assms(1) d obtain rs where "py_get (PDict d) ''retailer'' (PStr []) = Inr (PStr rs)"
    by (auto simp: source_link_def py_get_def is_str_iff split: option.splits)
  moreover from assms(2) d have "dict_get d (PStr ''url'') = None" by (simp add: has_field_def)
  ultimately show ?thesis
    unfolding d convert_link_def by (simp add: ebind_def as_str_def py_getitem_def)
qed

lemma convert_link_ok:
  assumes "source_link link" "has_field link ''url''"
  shows "\<exists>out. convert_link link i = Inr (PDict out)
           \<and> dict_get out (PStr ''priority'') = Some (PInt (i + 1))"
proof -
  from assms(1) obtain d where d: "link = PDict d" by (auto simp: source_link_def is_dict_iff)
  from assms(2) d obtain u where "dict_get d (PStr ''url'') = Some u" by (auto simp: has_field_def)
  from convert_link_typed [OF assms(1) [unfolded d] this, of i] show ?thesis
    unfolding d by blast
qed

section \<open>The item converter\<close>

lemma convert_links_ok:
  assumes "list_all source_link ls" "\<forall>l \<in> set ls. has_field l ''url''"
  shows "\<exists>vs. convert_links ls i = Inr vs
           \<and> map (\<lambda>v. field v ''priority'') vs
               = map (\<lambda>n. Some (PInt (i + int n))) [1 ..< Suc (length ls)]"
  using assms
proof (induction ls arbitrary: i)
  case Nil
  then show ?case by simp
next
  case (Cons l ls)
  from Cons.prems obtain out where out: "convert_link l i = Inr (PDict out)"
    and pr: "dict_get out (PStr ''priority'') = Some (PInt (i + 1))"
    using convert_link_ok [of l i] by auto
  from Cons.IH [of "i + 1"] Cons.prems obtain vs where vs: "convert_links ls (i + 1) = Inr vs"
    and prs: "map (\<lambda>v. field v ''priority'') vs
               = map (\<lambda>n. Some (PInt (i + 1 + int n))) [1 ..< Suc (length ls)]"
    by auto
  have shift: "map (\<lambda>n. Some (PInt (i + int n))) [1 ..< Suc (Suc (length ls))]
      = Some (PInt (i + 1)) # map (\<lambda>n. Some (PInt (i + 1 + int n))) [1 ..< Suc (length ls)]"
  proof -
    have "[1 ..< Suc (Suc (length ls))] = 1 # map Suc [1 ..< Suc (length ls)]"
      by (metis One_nat_def map_Suc_upt upt_conv_Cons zero_less_Suc Suc_less_eq)
    then show ?thesis by (simp add: comp_def add.assoc)
  qed
  have "convert_links (l # ls) i = Inr (PDict out # vs)"
    by (simp add: out vs ebind_def)
  moreover have "map (\<lambda>v. field v ''priority'') (PDict out # vs)
      = map (\<lambda>n. Some (PInt (i + int n))) [1 ..< Suc (length (l # ls))]"
    using pr prs shift by simp
  ultimately show ?case by blast
qed

lemma convert_links_error:
  assumes "list_all source_link ls"
  shows "(\<exists>vs. convert_links ls i = Inr vs) \<or> convert_links ls i = Inl (KeyError ''url'')"
  using assms
proof (induction ls arbitrary: i)
  case Nil
  then show ?case by simp
next
  case (Cons l ls)
  then have l: "source_link l" and ls: "list_all source_link ls" by simp_all
  show ?case
  proof (cases "has_field l ''url''")
    case False
    with l show ?thesis by (simp add: convert_link_no_url ebind_def)
  next
    case True
    with l obtain out where "convert_link l i = Inr (PDict out)"
      using convert_link_ok [of l i] by auto
    with Cons.IH [OF ls, of "i + 1"] show ?thesis by (auto simp: ebind_def)
  qed
qed

lemma source_item_links: "source_item item \<Longrightarrow> list_all source_link (links_of item)"
  by (auto simp: source_item_def links_of_def split: option.splits py.splits)

lemma source_item_iter:
  assumes "source_item item"
  shows "\<exists>d. item = PDict d
    \<and> ebind (py_get item ''affiliateLinks'' (PList [])) py_iter = Inr (links_of item)"
  using assms
  by (auto simp: source_item_def links_of_def is_dict_iff py_get_def py_iter_def ebind_def
           split: option.splits py.splits)

lemma convert_item_unfold:
  assumes "source_item item" "field item ''id'' = Some iid"
  shows "convert_item item =
     ebind (convert_links (links_of item) 0) (\<lambda>v1_links.
       Inr (iid, PDict [(PStr ''itemVersion'', PInt 1), (PStr ''links'', PList v1_links)]))"
proof -
  from source_item_iter [OF assms(1)] obtain d where d: "item = PDict d"
    and it: "ebind (py_get item ''affiliateLinks'' (PList [])) py_iter = Inr (links_of item)"
    by blast
  from assms(2) d have "py_getitem item ''id'' = Inr iid" by (simp add: py_getitem_def)
  moreover from it obtain al where "py_get item ''affiliateLinks'' (PList []) = Inr al"
    "py_iter al = Inr (links_of item)"
    by (auto simp: ebind_def split: sum.splits)
  ultimately show ?thesis by (simp add: convert_item_def ebind_def)
qed

lemma convert_item_no_id:
  assumes "source_item item" "\<not> has_field item ''id''"
  shows "convert_item item = Inl (KeyError ''id'')"
proof -
  from assms(1) obtain d where d: "item = PDict d" by (auto simp: source_item_def is_dict_iff)
  with assms(2) have "py_getitem item ''id'' = Inl (KeyError ''id'')"
    by (simp add: py_getitem_def has_field_def)
  then show ?thesis by (simp add: convert_item_def ebind_def)
qed

lemma convert_item_ok:
  assumes "source_item item" "field item ''id'' = Some iid"
    and "\<forall>l \<in> set (links_of item). has_field l ''url''"
  shows "\<exists>vs. convert_item item =
           Inr (iid, PDict [(PStr ''itemVersion'', PInt 1), (PStr ''links'', PList vs)])
     \<and> map (\<lambda>v. field v ''priority'') vs
         = map (\<lambda>n. Some (PInt (int n))) [1 ..< Suc (length (links_of item))]"
proof -
  from convert_links_ok [OF source_item_links [OF assms(1)] assms(3), of 0]
  obtain vs where "convert_links (links_of item) 0 = Inr vs"
    and "map (\<lambda>v. field v ''priority'') vs
         = map (\<lambda>n. Some (PInt (int n))) [1 ..< Suc (length (links_of item))]"
    by auto
  then show ?thesis
    by (simp add: convert_item_unfold [OF assms(1,2)] ebind_def)
qed

lemma convert_item_error:
  assumes "source_item item"
  shows "(\<exists>s doc. convert_item item = Inr (PStr s, doc)) \<or> (\<exists>k. convert_item item = Inl (KeyError k))"
proof (cases "field item ''id''")
  case None
  then show ?thesis using convert_item_no_id [OF assms] by (simp add: has_field_def)
next
  case (Some iid)
  with assms obtain s where s: "iid = PStr s"
    by (auto simp: source_item_def is_str_iff)
  from convert_links_error [OF source_item_links [OF assms], of 0] show ?thesis
    by (auto simp: convert_item_unfold [OF assms Some] ebind_def s)
qed

section \<open>Priorities\<close>



section \<open>Optional fields of a link\<close>

lemma normalize_badge_null_iff: "projr (normalize_badge (PStr s)) = PNone \<longleftrightarrow> s = []"
  by (simp add: normalize_badge_def as_str_def ebind_def Let_def)

lemma convert_link_optional_fields:
  assumes "source_link link" "has_field link ''url''"
  shows "\<exists>out. convert_link link i = Inr out
     \<and> (has_field out ''averageRating''
          \<longleftrightarrow> (\<exists>v. field link ''averageRating'' = Some v \<and> v \<noteq> PNone))
     \<and> (has_field out ''reviewCount''
          \<longleftrightarrow> (\<exists>v. field link ''reviewCount'' = Some v \<and> v \<noteq> PNone))
     \<and> (has_field out ''badge''
          \<longleftrightarrow> (\<exists>v. field link ''badge'' = Some v \<and> v \<noteq> PNone))
     \<and> field out ''averageRating'' \<noteq> Some PNone
     \<and> field out ''reviewCount'' \<noteq> Some PNone
     \<and> (field out ''badge'' = Some PNone \<longleftrightarrow> field link ''badge'' = Some (PStr []))
     \<and> has_field out ''displayName''
     \<and> (field out ''displayName'' = Some PNone
          \<longleftrightarrow> field link ''displayName'' = None \<or> field link ''displayName'' = Some PNone)"
proof -
  from assms(1) obtain d where d: "link = PDict d" by (auto simp: source_link_def is_dict_iff)
  from assms(2) d obtain u where u: "dict_get d (PStr ''url'') = Some u"
    by (auto simp: has_field_def)
  from convert_link_typed [OF assms(1) [unfolded d] u, of i] obtain out where
    out: "convert_link (PDict d) i = Inr (PDict out)"
    and dn: "dict_get out (PStr ''displayName'') =
         Some (case dict_get d (PStr ''displayName'') of Some v \<Rightarrow> v | None \<Rightarrow> PNone)"
    and ar: "dict_get out (PStr ''averageRating'') =
         (case dict_get d (PStr ''averageRating'') of
            Some v \<Rightarrow> if v = PNone then None else Some v | None \<Rightarrow> None)"
    and rc: "dict_get out (PStr ''reviewCount'') =
         (case dict_get d (PStr ''reviewCount'') of
            Some v \<Rightarrow> if v = PNone then None else Some v | None \<Rightarrow> None)"
    and bd: "dict_get out (PStr ''badge'') =
         (case dict_get d (PStr ''badge'') of
            Some v \<Rightarrow> if v = PNone then None else Some (projr (normalize_badge v))
          | None \<Rightarrow> None)"
    by blast
  have typed_badge: "\<And>v. dict_get d (PStr ''badge'') = Some v \<Longrightarrow> v \<noteq> PNone \<Longrightarrow> \<exists>s. v = PStr s"
    using assms(1) by (auto simp: d source_link_def is_str_iff)
  have 1: "has_field (PDict out) ''averageRating''
          \<longleftrightarrow> (\<exists>v. field link ''averageRating'' = Some v \<and> v \<noteq> PNone)"
    by (simp add: has_field_def d ar split: option.splits)
  have 2: "has_field (PDict out) ''reviewCount''
          \<longleftrightarrow> (\<exists>v. field link ''reviewCount'' = Some v \<and> v \<noteq> PNone)"
    by (simp add: has_field_def d rc split: option.splits)
  have 3: "has_field (PDict out) ''badge''
          \<longleftrightarrow> (\<exists>v. field link ''badge'' = Some v \<and> v \<noteq> PNone)"
    by (simp add: has_field_def d bd split: option.splits)
  have 4: "field (PDict out) ''averageRating'' \<noteq> Some PNone"
    by (simp add: ar split: option.splits)
  have 5: "field (PDict out) ''reviewCount'' \<noteq> Some PNone"
    by (simp add: rc split: option.splits)
  have 6: "field (PDict out) ''badge'' = Some PNone \<longleftrightarrow> field link ''badge'' = Some (PStr [])"
  proof (cases "dict_get d (PStr ''badge'')")
    case None
    then show ?thesis by (simp add: d bd)
  next
    case (Some v)
    show ?thesis
    proof (cases "v = PNone")
      case True
      with Some show ?thesis by (simp add: d bd)
    next
      case False
      with typed_badge [OF Some] obtain s where "v = PStr s" by blast
      with Some show ?thesis by (simp add: d bd normalize_badge_null_iff)
    qed
  qed
  have 7: "has_field (PDict out) ''displayName''"
    by (simp add: has_field_def dn)
  have 8: "field (PDict out) ''displayName'' = Some PNone
          \<longleftrightarrow> field link ''displayName'' = None \<or> field link ''displayName'' = Some PNone"
    by (simp add: d dn split: option.splits)
  from out 1 2 3 4 5 6 7 8 show ?thesis unfolding d by blast
qed

text \<open>
  Claim C5. A link whose badge is the empty string has a badge that is present and not
  null, and its destination link has the key badge with the value null: the guard of
  the converter lets the empty string through and the badge normalizer returns None
  for it.
\<close>

theorem convert_link_empty_badge:
  "source_link (PDict [(PStr ''url'', PStr ''http://x''), (PStr ''badge'', PStr [])])
   \<and> has_field (PDict [(PStr ''url'', PStr ''http://x''), (PStr ''badge'', PStr [])]) ''url''
   \<and> field (PDict [(PStr ''url'', PStr ''http://x''), (PStr ''badge'', PStr [])]) ''badge''
       = Some (PStr [])
   \<and> convert_link (PDict [(PStr ''url'', PStr ''http://x''), (PStr ''badge'', PStr [])]) 0
       = Inr (PDict [(PStr ''retailer'', PStr []),
                     (PStr ''url'', PStr ''http://x''),
                     (PStr ''displayName'', PNone),
                     (PStr ''affiliateTag'', PStr ''dormready''),
                     (PStr ''priority'', PInt 1),
                     (PStr ''badge'', PNone)])"
  by code_simp

section \<open>Absent optional structure\<close>

lemma get_affiliate_tag_empty: "get_affiliate_tag [] = DEFAULT_AFFILIATE_TAG_OTHER"
  by (simp add: get_affiliate_tag_def py_lower_def)

lemma normalize_retailer_empty: "normalize_retailer [] = []"
  by (simp add: normalize_retailer_def py_lower_def py_strip_def)

text \<open>
  Claim C10. A link of the data model with a url and no retailer converts, with the
  empty string as retailer and the generic default tag; a category object with an id
  and no items field converts to an empty items mapping; an item object with an id and
  no affiliateLinks field converts to an empty links array.
\<close>

theorem absent_fields_default:
  "(source_link link \<and> has_field link ''url'' \<and> \<not> has_field link ''retailer''
      \<longrightarrow> (\<exists>out. convert_link link i = Inr out
             \<and> field out ''retailer'' = Some (PStr [])
             \<and> field out ''affiliateTag'' = Some (PStr DEFAULT_AFFILIATE_TAG_OTHER)))
   \<and> (is_dict category \<and> has_field category ''id'' \<and> \<not> has_field category ''items''
      \<longrightarrow> (\<exists>cid. field category ''id'' = Some cid
             \<and> convert_category today category =
                 Inr (PDict [(PStr ''categoryId'', cid),
                             (PStr ''version'', PInt VERSION),
                             (PStr ''lastUpdated'', PStr today),
                             (PStr ''items'', PDict [])])))
   \<and> (is_dict item \<and> has_field item ''id'' \<and> \<not> has_field item ''affiliateLinks''
      \<longrightarrow> (\<exists>iid. field item ''id'' = Some iid
             \<and> convert_item item =
                 Inr (iid, PDict [(PStr ''itemVersion'', PInt 1), (PStr ''links'', PList [])])))"
proof (intro conjI impI)
  assume a: "source_link link \<and> has_field link ''url'' \<and> \<not> has_field link ''retailer''"
  then obtain d where d: "link = PDict d" by (auto simp: source_link_def is_dict_iff)
  from a d obtain u where u: "dict_get d (PStr ''url'') = Some u" by (auto simp: has_field_def)
  from a d have r: "dict_get d (PStr ''retailer'') = None" by (simp add: has_field_def)
  from a have t: "source_link (PDict d)" by (simp add: d)
  from convert_link_typed [OF t u, of i] obtain out where
    "convert_link (PDict d) i = Inr (PDict out)"
    "dict_get out (PStr ''retailer'') = Some (PStr (normalize_retailer []))"
    "dict_get out (PStr ''affiliateTag'') = Some (PStr (get_affiliate_tag (normalize_retailer [])))"
    unfolding r by (simp only: option.case) blast
  then show "\<exists>out. convert_link link i = Inr out
             \<and> field out ''retailer'' = Some (PStr [])
             \<and> field out ''affiliateTag'' = Some (PStr DEFAULT_AFFILIATE_TAG_OTHER)"
    by (simp add: d normalize_retailer_empty get_affiliate_tag_empty)
next
  assume a: "is_dict category \<and> has_field category ''id'' \<and> \<not> has_field category ''items''"
  then obtain d where d: "category = PDict d" by (auto simp: is_dict_iff)
  from a d obtain cid where cid: "dict_get d (PStr ''id'') = Some cid"
    by (auto simp: has_field_def)
  from a d have "dict_get d (PStr ''items'') = None" by (simp add: has_field_def)
  with cid have "convert_category today (PDict d) =
      Inr (PDict [(PStr ''categoryId'', cid), (PStr ''version'', PInt VERSION),
                  (PStr ''lastUpdated'', PStr today), (PStr ''items'', PDict [])])"
    by (simp add: convert_category_def py_getitem_def py_get_def py_iter_def ebind_def)
  with cid show "\<exists>cid. field category ''id'' = Some cid
             \<and> convert_category today category =
                 Inr (PDict [(PStr ''categoryId'', cid),
                             (PStr ''version'', PInt VERSION),
                             (PStr ''lastUpdated'', PStr today),
                             (PStr ''items'', PDict [])])"
    by (simp add: d)
next
  assume a: "is_dict item \<and> has_field item ''id'' \<and> \<not> has_field item ''affiliateLinks''"
  then obtain d where d: "item = PDict d" by (auto simp: is_dict_iff)
  from a d obtain iid where iid: "dict_get d (PStr ''id'') = Some iid"
    by (auto simp: has_field_def)
  from a d have "dict_get d (PStr ''affiliateLinks'') = None" by (simp add: has_field_def)
  with iid have "convert_item (PDict d) =
      Inr (iid, PDict [(PStr ''itemVersion'', PInt 1), (PStr ''links'', PList [])])"
    by (simp add: convert_item_def py_getitem_def py_get_def py_iter_def ebind_def)
  with iid show "\<exists>iid. field item ''id'' = Some iid
             \<and> convert_item item =
                 Inr (iid, PDict [(PStr ''itemVersion'', PInt 1), (PStr ''links'', PList [])])"
    by (simp add: d)
qed

theorem absent_fields_default_witness:
  "source_link link_without_retailer \<and> has_field link_without_retailer ''url''
   \<and> \<not> has_field link_without_retailer ''retailer''
   \<and> (\<exists>out. convert_link link_without_retailer 2 = Inr out
         \<and> field out ''retailer'' = Some (PStr [])
         \<and> field out ''affiliateTag'' = Some (PStr ''dormready''))
   \<and> is_dict category_without_items \<and> has_field category_without_items ''id''
   \<and> \<not> has_field category_without_items ''items''
   \<and> (\<exists>cid. field category_without_items ''id'' = Some cid
         \<and> convert_category ''2025-12-01'' category_without_items =
               Inr (PDict [(PStr ''categoryId'', cid),
                           (PStr ''version'', PInt 3),
                           (PStr ''lastUpdated'', PStr ''2025-12-01''),
                           (PStr ''items'', PDict [])]))
   \<and> is_dict item_without_links \<and> has_field item_without_links ''id''
   \<and> \<not> has_field item_without_links ''affiliateLinks''
   \<and> (\<exists>iid. field item_without_links ''id'' = Some iid
         \<and> convert_item item_without_links =
               Inr (iid, PDict [(PStr ''itemVersion'', PInt 1), (PStr ''links'', PList [])]))"
proof -
  have l: "source_link link_without_retailer \<and> has_field link_without_retailer ''url''
     \<and> \<not> has_field link_without_retailer ''retailer''"
    by code_simp
  have c: "is_dict category_without_items \<and> has_field category_without_items ''id''
     \<and> \<not> has_field category_without_items ''items''"
    by code_simp
  have i: "is_dict item_without_links \<and> has_field item_without_links ''id''
     \<and> \<not> has_field item_without_links ''affiliateLinks''"
    by code_simp
  note inst = absent_fields_default [where link = link_without_retailer and i = 2
      and category = category_without_items and today = "''2025-12-01''"
      and item = item_without_links,
      unfolded DEFAULT_AFFILIATE_TAG_OTHER_def VERSION_def]
  have r1: "\<exists>out. convert_link link_without_retailer 2 = Inr out
         \<and> field out ''retailer'' = Some (PStr [])
         \<and> field out ''affiliateTag'' = Some (PStr ''dormready'')"
    by (rule inst [THEN conjunct1, THEN mp, OF l])
  have r2: "\<exists>cid. field category_without_items ''id'' = Some cid
         \<and> convert_category ''2025-12-01'' category_without_items =
               Inr (PDict [(PStr ''categoryId'', cid),
                           (PStr ''version'', PInt 3),
                           (PStr ''lastUpdated'', PStr ''2025-12-01''),
                           (PStr ''items'', PDict [])])"
    by (rule inst [THEN conjunct2, THEN conjunct1, THEN mp, OF c])
  have r3: "\<exists>iid. field item_without_links ''id'' = Some iid
         \<and> convert_item item_without_links =
               Inr (iid, PDict [(PStr ''itemVersion'', PInt 1), (PStr ''links'', PList [])])"
    by (rule inst [THEN conjunct2, THEN conjunct2, THEN mp, OF i])
  from l c i r1 r2 r3 show ?thesis by (elim conjE) (intro conjI; assumption)
qed

section \<open>The category converter\<close>

lemma distinct_dict_set_PStr:
  "distinct (map fst d) \<Longrightarrow> distinct (map fst (dict_set d (PStr s) v))"
proof (induction d)
  case Nil
  show ?case by simp
next
  case (Cons p d)
  obtain k' v' where p: "p = (k', v')" by (cases p)
  from Cons.prems have nin: "k' \<notin> fst ` set d" and dd: "distinct (map fst d)"
    by (simp_all add: p)
  show ?case
  proof (cases "k' = PStr s")
    case True
    with nin dd show ?thesis by (simp add: p)
  next
    case False
    with nin have "k' \<notin> fst ` set (dict_set d (PStr s) v)"
      by (simp add: keys_dict_set_PStr)
    with False Cons.IH [OF dd] show ?thesis by (simp add: p)
  qed
qed

lemma convert_items_typed:
  assumes "list_all source_item its"
    and "\<forall>it \<in> set its. has_field it ''id'' \<and> (\<forall>l \<in> set (links_of it). has_field l ''url'')"
  shows "\<exists>d'. convert_items its d = Inr d'
     \<and> (distinct (map fst d) \<longrightarrow> distinct (map fst d'))
     \<and> fst ` set d' = fst ` set d \<union> {iid. \<exists>it \<in> set its. field it ''id'' = Some iid}
     \<and> (\<forall>k. (\<forall>it \<in> set its. field it ''id'' \<noteq> Some k) \<longrightarrow> dict_get d' k = dict_get d k)
     \<and> (\<forall>pre it post. its = pre @ it # post
            \<and> (\<forall>it' \<in> set post. field it' ''id'' \<noteq> field it ''id'')
          \<longrightarrow> (\<exists>iid doc. field it ''id'' = Some iid \<and> convert_item it = Inr (iid, doc)
                 \<and> dict_get d' iid = Some doc))"
  using assms
proof (induction its arbitrary: d)
  case Nil
  show ?case by simp
next
  case (Cons it0 its)
  from Cons.prems have typed0: "source_item it0" and typed: "list_all source_item its"
    by simp_all
  from Cons.prems(2) have has0: "has_field it0 ''id''"
    and urls0: "\<forall>l \<in> set (links_of it0). has_field l ''url''"
    and rest: "\<forall>it \<in> set its. has_field it ''id'' \<and> (\<forall>l \<in> set (links_of it). has_field l ''url'')"
    by simp_all
  from has0 obtain iid0 where iid0: "field it0 ''id'' = Some iid0" by (auto simp: has_field_def)
  with typed0 obtain s where s: "iid0 = PStr s" by (auto simp: source_item_def is_str_iff)
  from convert_item_ok [OF typed0 iid0 urls0] obtain doc0 where
    c0: "convert_item it0 = Inr (PStr s, doc0)" unfolding s by blast
  define d1 where "d1 = dict_set d (PStr s) doc0"
  have step: "convert_items (it0 # its) d = convert_items its d1"
    by (simp add: c0 ebind_def d1_def)
  from Cons.IH [OF typed rest, of d1] obtain d' where
    r: "convert_items its d1 = Inr d'"
    and dist: "distinct (map fst d1) \<longrightarrow> distinct (map fst d')"
    and keys: "fst ` set d' = fst ` set d1 \<union> {iid. \<exists>it \<in> set its. field it ''id'' = Some iid}"
    and same: "\<forall>k. (\<forall>it \<in> set its. field it ''id'' \<noteq> Some k) \<longrightarrow> dict_get d' k = dict_get d1 k"
    and last: "\<forall>pre it post. its = pre @ it # post
            \<and> (\<forall>it' \<in> set post. field it' ''id'' \<noteq> field it ''id'')
          \<longrightarrow> (\<exists>iid doc. field it ''id'' = Some iid \<and> convert_item it = Inr (iid, doc)
                 \<and> dict_get d' iid = Some doc)"
    by blast
  have 1: "distinct (map fst d) \<longrightarrow> distinct (map fst d')"
    using dist by (simp add: d1_def distinct_dict_set_PStr)
  have 2: "fst ` set d' = fst ` set d \<union> {iid. \<exists>it \<in> set (it0 # its). field it ''id'' = Some iid}"
    unfolding keys d1_def keys_dict_set_PStr using iid0 s by auto
  have 3: "\<forall>k. (\<forall>it \<in> set (it0 # its). field it ''id'' \<noteq> Some k) \<longrightarrow> dict_get d' k = dict_get d k"
  proof (intro allI impI)
    fix k assume k: "\<forall>it \<in> set (it0 # its). field it ''id'' \<noteq> Some k"
    then have "k \<noteq> PStr s" using iid0 s by auto
    moreover from k same have "dict_get d' k = dict_get d1 k" by simp
    ultimately show "dict_get d' k = dict_get d k"
      by (simp add: d1_def dict_get_dict_set_PStr)
  qed
  have 4: "\<forall>pre it post. it0 # its = pre @ it # post
            \<and> (\<forall>it' \<in> set post. field it' ''id'' \<noteq> field it ''id'')
          \<longrightarrow> (\<exists>iid doc. field it ''id'' = Some iid \<and> convert_item it = Inr (iid, doc)
                 \<and> dict_get d' iid = Some doc)"
  proof (intro allI impI)
    fix pre it post
    assume a: "it0 # its = pre @ it # post
            \<and> (\<forall>it' \<in> set post. field it' ''id'' \<noteq> field it ''id'')"
    show "\<exists>iid doc. field it ''id'' = Some iid \<and> convert_item it = Inr (iid, doc)
                 \<and> dict_get d' iid = Some doc"
    proof (cases pre)
      case Nil
      with a have it: "it = it0" and post: "post = its" by simp_all
      from a post it iid0 s have "\<forall>it' \<in> set its. field it' ''id'' \<noteq> Some (PStr s)" by simp
      with same have "dict_get d' (PStr s) = dict_get d1 (PStr s)" by simp
      then have "dict_get d' (PStr s) = Some doc0"
        by (simp add: d1_def dict_get_dict_set_PStr)
      with c0 iid0 s it show ?thesis by simp
    next
      case (Cons x pre')
      with a have "its = pre' @ it # post" by simp
      with a last show ?thesis by blast
    qed
  qed
  from r step 1 2 3 4 show ?case by (simp only:) blast
qed

lemma source_category_items:
  assumes "source_category category"
  shows "\<exists>d. category = PDict d \<and> list_all source_item (items_of category)
    \<and> ebind (py_get category ''items'' (PList [])) py_iter = Inr (items_of category)"
  using assms
  by (auto simp: source_category_def items_of_def is_dict_iff py_get_def py_iter_def ebind_def
           split: option.splits py.splits)

lemma convert_category_unfold:
  assumes "source_category category" "field category ''id'' = Some cid"
  shows "convert_category today category =
     ebind (convert_items (items_of category) []) (\<lambda>items_dict.
       Inr (PDict [(PStr ''categoryId'', cid),
                   (PStr ''version'', PInt VERSION),
                   (PStr ''lastUpdated'', PStr today),
                   (PStr ''items'', PDict items_dict)]))"
proof -
  from source_category_items [OF assms(1)] obtain d where d: "category = PDict d"
    and it: "ebind (py_get category ''items'' (PList [])) py_iter = Inr (items_of category)"
    by blast
  from assms(2) d have "py_getitem category ''id'' = Inr cid" by (simp add: py_getitem_def)
  moreover from it obtain ia where "py_get category ''items'' (PList []) = Inr ia"
    "py_iter ia = Inr (items_of category)"
    by (auto simp: ebind_def split: sum.splits)
  ultimately show ?thesis by (simp add: convert_category_def ebind_def)
qed

text \<open>
  Claim C2. For a category of the data model that has an id, whose items each have an
  id and whose links each have a url, the category conversion succeeds; the keys of the
  destination items mapping are pairwise distinct and are exactly the source item ids;
  and for an item that no later item shares its id with, the entry under its id is the
  item document that the item conversion gives for it. So of several items with one id
  the last in source order wins.
\<close>

theorem convert_category_items:
  assumes "source_category category" and "has_field category ''id''"
    and "\<forall>it \<in> set (items_of category).
           has_field it ''id'' \<and> (\<forall>l \<in> set (links_of it). has_field l ''url'')"
  shows "\<exists>cid d. convert_category today category =
           Inr (PDict [(PStr ''categoryId'', cid),
                       (PStr ''version'', PInt VERSION),
                       (PStr ''lastUpdated'', PStr today),
                       (PStr ''items'', PDict d)])
     \<and> field category ''id'' = Some cid
     \<and> distinct (map fst d)
     \<and> fst ` set d = {iid. \<exists>it \<in> set (items_of category). field it ''id'' = Some iid}
     \<and> (\<forall>pre it post. items_of category = pre @ it # post
            \<and> (\<forall>it' \<in> set post. field it' ''id'' \<noteq> field it ''id'')
          \<longrightarrow> (\<exists>iid doc. field it ''id'' = Some iid \<and> convert_item it = Inr (iid, doc)
                 \<and> dict_get d iid = Some doc))"
proof -
  from assms(2) obtain cid where cid: "field category ''id'' = Some cid"
    by (auto simp: has_field_def)
  from source_category_items [OF assms(1)] have typed: "list_all source_item (items_of category)"
    by blast
  from convert_items_typed [OF typed assms(3), of "[]"] obtain d where
    r: "convert_items (items_of category) [] = Inr d"
    and dist: "distinct (map fst d)"
    and keys: "fst ` set d = {iid. \<exists>it \<in> set (items_of category). field it ''id'' = Some iid}"
    and last: "\<forall>pre it post. items_of category = pre @ it # post
            \<and> (\<forall>it' \<in> set post. field it' ''id'' \<noteq> field it ''id'')
          \<longrightarrow> (\<exists>iid doc. field it ''id'' = Some iid \<and> convert_item it = Inr (iid, doc)
                 \<and> dict_get d iid = Some doc)"
    by auto
  have "convert_category today category =
           Inr (PDict [(PStr ''categoryId'', cid),
                       (PStr ''version'', PInt VERSION),
                       (PStr ''lastUpdated'', PStr today),
                       (PStr ''items'', PDict d)])"
    by (simp add: convert_category_unfold [OF assms(1) cid] r ebind_def)
  with cid dist keys last show ?thesis by blast
qed

theorem convert_category_items_witness:
  "source_category duplicate_id_category \<and> has_field duplicate_id_category ''id''
   \<and> list_all (\<lambda>it. has_field it ''id'' \<and> list_all (\<lambda>l. has_field l ''url'') (links_of it))
        (items_of duplicate_id_category)
   \<and> (\<exists>d. convert_category ''2025-12-01'' duplicate_id_category =
           Inr (PDict [(PStr ''categoryId'', PStr ''lighting''),
                       (PStr ''version'', PInt 3),
                       (PStr ''lastUpdated'', PStr ''2025-12-01''),
                       (PStr ''items'', PDict d)])
        \<and> fst ` set d = {PStr ''lamp'', PStr ''rug''}
        \<and> dict_get d (PStr ''lamp'') =
            Some (PDict [(PStr ''itemVersion'', PInt 1), (PStr ''links'', PList [])]))"
proof -
  have h1: "source_category duplicate_id_category" by code_simp
  have h2: "has_field duplicate_id_category ''id''" by code_simp
  have h3': "list_all (\<lambda>it. has_field it ''id'' \<and> list_all (\<lambda>l. has_field l ''url'') (links_of it))
        (items_of duplicate_id_category)" by code_simp
  then have h3: "\<forall>it \<in> set (items_of duplicate_id_category).
           has_field it ''id'' \<and> (\<forall>l \<in> set (links_of it). has_field l ''url'')"
    by (simp add: list_all_iff)
  have its: "items_of duplicate_id_category =
      [PDict [(PStr ''id'', PStr ''lamp''),
              (PStr ''affiliateLinks'', PList
                 [PDict [(PStr ''retailer'', PStr ''Amazon''), (PStr ''url'', PStr ''http://a'')]])],
       PDict [(PStr ''id'', PStr ''rug'')]]
      @ PDict [(PStr ''id'', PStr ''lamp''), (PStr ''name'', PStr ''Clip Lamp'')] # []"
    by (simp add: duplicate_id_category_def items_of_def)
  have cid: "field duplicate_id_category ''id'' = Some (PStr ''lighting'')"
    by (simp add: duplicate_id_category_def)
  have ids: "{iid. \<exists>it \<in> set (items_of duplicate_id_category). field it ''id'' = Some iid}
      = {PStr ''lamp'', PStr ''rug''}"
    unfolding its by auto
  have lastc: "convert_item (PDict [(PStr ''id'', PStr ''lamp''), (PStr ''name'', PStr ''Clip Lamp'')])
      = Inr (PStr ''lamp'', PDict [(PStr ''itemVersion'', PInt 1), (PStr ''links'', PList [])])"
    by code_simp
  from convert_category_items [OF h1 h2 h3, of "''2025-12-01''"] obtain cid' d where
    r: "convert_category ''2025-12-01'' duplicate_id_category =
           Inr (PDict [(PStr ''categoryId'', cid'),
                       (PStr ''version'', PInt VERSION),
                       (PStr ''lastUpdated'', PStr ''2025-12-01''),
                       (PStr ''items'', PDict d)])"
    and c: "field duplicate_id_category ''id'' = Some cid'"
    and keys: "fst ` set d = {iid. \<exists>it \<in> set (items_of duplicate_id_category). field it ''id'' = Some iid}"
    and last: "\<forall>pre it post. items_of duplicate_id_category = pre @ it # post
            \<and> (\<forall>it' \<in> set post. field it' ''id'' \<noteq> field it ''id'')
          \<longrightarrow> (\<exists>iid doc. field it ''id'' = Some iid \<and> convert_item it = Inr (iid, doc)
                 \<and> dict_get d iid = Some doc)"
    by blast
  from c cid have cid': "cid' = PStr ''lighting''" by simp
  have e: "items_of duplicate_id_category =
      [PDict [(PStr ''id'', PStr ''lamp''),
              (PStr ''affiliateLinks'', PList
                 [PDict [(PStr ''retailer'', PStr ''Amazon''), (PStr ''url'', PStr ''http://a'')]])],
       PDict [(PStr ''id'', PStr ''rug'')]]
      @ PDict [(PStr ''id'', PStr ''lamp''), (PStr ''name'', PStr ''Clip Lamp'')] # []
    \<and> (\<forall>it' \<in> set []. field it' ''id''
          \<noteq> field (PDict [(PStr ''id'', PStr ''lamp''), (PStr ''name'', PStr ''Clip Lamp'')]) ''id'')"
    using its by simp
  from last [rule_format, OF e] obtain iid doc where
    cv: "convert_item (PDict [(PStr ''id'', PStr ''lamp''), (PStr ''name'', PStr ''Clip Lamp'')]) = Inr (iid, doc)"
    and dg: "dict_get d iid = Some doc"
    by (elim exE conjE)
  from cv have "iid = PStr ''lamp''"
    and "doc = PDict [(PStr ''itemVersion'', PInt 1), (PStr ''links'', PList [])]"
    unfolding lastc by simp_all
  with dg have lamp: "dict_get d (PStr ''lamp'') =
            Some (PDict [(PStr ''itemVersion'', PInt 1), (PStr ''links'', PList [])])"
    by simp
  have "\<exists>d. convert_category ''2025-12-01'' duplicate_id_category =
           Inr (PDict [(PStr ''categoryId'', PStr ''lighting''),
                       (PStr ''version'', PInt 3),
                       (PStr ''lastUpdated'', PStr ''2025-12-01''),
                       (PStr ''items'', PDict d)])
        \<and> fst ` set d = {PStr ''lamp'', PStr ''rug''}
        \<and> dict_get d (PStr ''lamp'') =
            Some (PDict [(PStr ''itemVersion'', PInt 1), (PStr ''links'', PList [])])"
    using r keys lamp unfolding cid' ids VERSION_def by (intro exI [of _ d] conjI)
  then show ?thesis by (intro conjI h1 h2 h3')
qed

section \<open>The file pipeline\<close>

lemma load_v2_fragment:
  assumes "startswith content [CHR 0x22]"
    and "loads (''{'' @ content @ ''}'') = Inr (PDict ((category_key, PDict members) # rest))"
  shows "load_v2 loads content =
     Inr (PDict (if dict_get members (PStr ''id'') = None
                 then dict_set members (PStr ''id'') category_key else members))"
  using assms
  by (simp add: load_v2_def ebind_def py_keys_def py_values_def py_contains_def py_setitem_def)

lemma load_v2_standard:
  assumes "\<not> startswith content [CHR 0x22]"
  shows "load_v2 loads content = loads content"
  using assms by (simp add: load_v2_def)

text \<open>
  Claim C1. When the trimmed content of the input file is the bare fragment of the
  example, the parser returns for the fragment in braces the value that this JSON text
  denotes, and writing the output raises nothing, the conversion of the file returns
  True, reports one item and one link, and writes exactly the expected document, whose
  lastUpdated is the date of the run.
\<close>

theorem convert_file_example:
  assumes "read_text env input_path = Inr text"
    and "py_strip text = example_fragment"
    and "json_loads env (''{'' @ example_fragment @ ''}'') = Inr example_wrapped"
    and "write_raises env output_path = None"
  shows "convert_file env input_path output_path =
     \<lparr>returned = True, printed = Success_line 1 1,
      written = Some (example_output (TODAY env))\<rparr>"
proof -
  define v2 where "v2 =
     PDict [(PStr ''label'', PStr ''Bedding & Sleep''),
            (PStr ''items'', PList
              [PDict [(PStr ''id'', PStr ''twin-xl-sheets''),
                      (PStr ''affiliateLinks'', PList
                        [PDict [(PStr ''retailer'', PStr ''Amazon''),
                                (PStr ''url'', PStr ''http://x''),
                                (PStr ''averageRating'', PFloat (9 / 2)),
                                (PStr ''reviewCount'', PInt 400000),
                                (PStr ''badge'', PStr ''budget best-seller'')]])]]),
            (PStr ''id'', PStr ''bedding_sleep'')]"
  have sw: "startswith example_fragment [CHR 0x22]" by code_simp
  have parsed: "load_v2 (json_loads env) example_fragment = Inr v2"
    using load_v2_fragment [where loads = "json_loads env" and content = example_fragment,
        OF sw assms(3) [unfolded example_wrapped_def]]
    by (simp add: v2_def)
  have conv: "convert_category (TODAY env) v2 = Inr (example_output (TODAY env))"
    unfolding v2_def by code_simp
  have stats: "statistics (example_output (TODAY env)) = Inr (1, 1)"
    by code_simp
  have "convert_and_write env input_path output_path = Inr (example_output (TODAY env))"
    by (simp add: convert_and_write_def assms(1,2,4) parsed conv ebind_def)
  then show ?thesis
    by (simp add: convert_file_def stats)
qed

theorem convert_file_example_witness:
  "read_text example_env ''v2/bedding.json'' = Inr (''  '' @ example_fragment @ [CHR 0x0A])
   \<and> py_strip (''  '' @ example_fragment @ [CHR 0x0A]) = example_fragment
   \<and> json_loads example_env (''{'' @ example_fragment @ ''}'') = Inr example_wrapped
   \<and> write_raises example_env ''v1/bedding.json'' = None
   \<and> convert_file example_env ''v2/bedding.json'' ''v1/bedding.json'' =
       \<lparr>returned = True, printed = Success_line 1 1,
        written = Some (example_output ''2025-12-01'')\<rparr>"
proof -
  have h1: "read_text example_env ''v2/bedding.json'' = Inr (''  '' @ example_fragment @ [CHR 0x0A])"
    by code_simp
  have h2: "py_strip (''  '' @ example_fragment @ [CHR 0x0A]) = example_fragment"
    by code_simp
  have h3: "json_loads example_env (''{'' @ example_fragment @ ''}'') = Inr example_wrapped"
    by code_simp
  have h4: "write_raises example_env ''v1/bedding.json'' = None"
    by code_simp
  have d: "TODAY example_env = ''2025-12-01''" by code_simp
  from convert_file_example [OF h1 h2 h3 h4]
  have r: "convert_file example_env ''v2/bedding.json'' ''v1/bedding.json'' =
       \<lparr>returned = True, printed = Success_line 1 1,
        written = Some (example_output ''2025-12-01'')\<rparr>"
    unfolding d .
  show ?thesis by (intro conjI h1 h2 h3 h4 r)
qed

section \<open>Missing item ids\<close>

lemma convert_items_missing_id:
  assumes "list_all source_item its" and "\<exists>it \<in> set its. \<not> has_field it ''id''"
  shows "\<exists>k. convert_items its d = Inl (KeyError k)"
  using assms
proof (induction its arbitrary: d)
  case Nil
  then show ?case by simp
next
  case (Cons it0 its)
  then have typed0: "source_item it0" and typed: "list_all source_item its" by simp_all
  show ?case
  proof (cases "has_field it0 ''id''")
    case False
    from convert_item_no_id [OF typed0 False] show ?thesis by (simp add: ebind_def)
  next
    case True
    with Cons.prems(2) have later: "\<exists>it \<in> set its. \<not> has_field it ''id''" by auto
    from convert_item_error [OF typed0] show ?thesis
    proof
      assume "\<exists>s doc. convert_item it0 = Inr (PStr s, doc)"
      then obtain s doc where "convert_item it0 = Inr (PStr s, doc)" by blast
      with Cons.IH [OF typed later, of "dict_set d (PStr s) doc"] show ?thesis
        by (simp add: ebind_def)
    next
      assume "\<exists>k. convert_item it0 = Inl (KeyError k)"
      then show ?thesis by (auto simp: ebind_def)
    qed
  qed
qed

lemma convert_category_missing_id:
  assumes "source_category category" and "\<exists>it \<in> set (items_of category). \<not> has_field it ''id''"
  shows "\<exists>k. convert_category today category = Inl (KeyError k)"
proof (cases "field category ''id''")
  case None
  from assms(1) obtain d where "category = PDict d" by (auto simp: source_category_def is_dict_iff)
  with None show ?thesis by (simp add: convert_category_def py_getitem_def ebind_def)
next
  case (Some cid)
  from source_category_items [OF assms(1)] have "list_all source_item (items_of category)"
    by blast
  from convert_items_missing_id [OF this assms(2), of "[]"] show ?thesis
    by (auto simp: convert_category_unfold [OF assms(1) Some] ebind_def)
qed

text \<open>
  Claim C9. When the file is read and parsed to a category of the data model one of
  whose items has no id, the category conversion raises a KeyError and the conversion
  of the file returns False with the missing-field line for that key; nothing is
  written.
\<close>

theorem convert_file_missing_item_id:
  assumes "read_text env input_path = Inr text"
    and "load_v2 (json_loads env) (py_strip text) = Inr category"
    and "source_category category"
    and "\<exists>it \<in> set (items_of category). \<not> has_field it ''id''"
  shows "\<exists>k. convert_category (TODAY env) category = Inl (KeyError k)
     \<and> convert_file env input_path output_path =
         \<lparr>returned = False, printed = Missing_required_field_line k, written = None\<rparr>"
proof -
  from convert_category_missing_id [OF assms(3,4), of "TODAY env"] obtain k where
    k: "convert_category (TODAY env) category = Inl (KeyError k)" by blast
  then have "convert_and_write env input_path output_path = Inl (KeyError k)"
    by (simp add: convert_and_write_def assms(1,2) ebind_def)
  then have "convert_file env input_path output_path =
         \<lparr>returned = False, printed = Missing_required_field_line k, written = None\<rparr>"
    by (simp add: convert_file_def handler_def)
  with k show ?thesis by blast
qed

theorem convert_file_missing_item_id_witness:
  "read_text example_env ''v2/kitchen.json'' = Inr (kitchen_text @ [CHR 0x0A])
   \<and> load_v2 (json_loads example_env) (py_strip (kitchen_text @ [CHR 0x0A])) = Inr kitchen_value
   \<and> source_category kitchen_value
   \<and> (\<exists>it \<in> set (items_of kitchen_value). \<not> has_field it ''id'')
   \<and> convert_category (TODAY example_env) kitchen_value = Inl (KeyError ''id'')
   \<and> convert_file example_env ''v2/kitchen.json'' ''v1/kitchen.json'' =
         \<lparr>returned = False, printed = Missing_required_field_line ''id'', written = None\<rparr>"
proof -
  have h1: "read_text example_env ''v2/kitchen.json'' = Inr (kitchen_text @ [CHR 0x0A])"
    by code_simp
  have h2: "load_v2 (json_loads example_env) (py_strip (kitchen_text @ [CHR 0x0A])) = Inr kitchen_value"
    by code_simp
  have h3: "source_category kitchen_value" by code_simp
  have "list_ex (\<lambda>it. \<not> has_field it ''id'') (items_of kitchen_value)" by code_simp
  then have h4: "\<exists>it \<in> set (items_of kitchen_value). \<not> has_field it ''id''"
    by (simp add: list_ex_iff)
  have c: "convert_category (TODAY example_env) kitchen_value = Inl (KeyError ''id'')"
    by code_simp
  from convert_file_missing_item_id [OF h1 h2 h3 h4, of "''v1/kitchen.json''"] obtain k where
    "convert_category (TODAY example_env) kitchen_value = Inl (KeyError k)"
    and r: "convert_file example_env ''v2/kitchen.json'' ''v1/kitchen.json'' =
         \<lparr>returned = False, printed = Missing_required_field_line k, written = None\<rparr>"
    by blast
  with c have "k = ''id''" by simp
  with r have r': "convert_file example_env ''v2/kitchen.json'' ''v1/kitchen.json'' =
         \<lparr>returned = False, printed = Missing_required_field_line ''id'', written = None\<rparr>"
    by simp
  show ?thesis by (intro conjI h1 h2 h3 h4 c r')
qed

section \<open>The batch driver\<close>













end
